theory Spec2Isabelle
  imports Complex_Main "HOL-Library.Word" "HOL-Library.AList"
begin

section \<open>Values of the runtime\<close>

text \<open>
  A JavaScript string is a sequence of 16-bit code units; \<open>length\<close>, \<open>includes\<close>,
  \<open>split\<close> and \<open>===\<close> all work on code units. A \<open>number\<close> is modelled by an exact
  rational: the finite values, without rounding; \<open>NaN\<close> and the infinities are left out.
  A \<open>Buffer\<close> is a list of bytes.
\<close>

type_synonym jsstring = "16 word list"
type_synonym number = rat
type_synonym buffer = "8 word list"

text \<open>A string literal of the source, given by its ASCII characters.\<close>

definition js :: "string \<Rightarrow> jsstring" where
  "js s = map (\<lambda>c. of_nat (of_char c)) s"

text \<open>\<open>a || b\<close> on numbers: \<open>0\<close> is the falsy number. On strings: the empty string is falsy.\<close>

definition or_num :: "number \<Rightarrow> number \<Rightarrow> number" where
  "or_num a b = (if a = 0 then b else a)"

definition or_str :: "jsstring \<Rightarrow> jsstring \<Rightarrow> jsstring" where
  "or_str a b = (if a = [] then b else a)"

section \<open>Data model (types.ts)\<close>

record CardAttributes =
  mana :: number
  resistance :: number
  charm :: number
  devotion :: number

record Card =
  card_id :: jsstring
  card_imageUrl :: jsstring
  card_title :: jsstring
  card_description :: jsstring
  card_type :: jsstring
  card_cost :: number
  attributes :: CardAttributes
  card_character :: "jsstring option"

record CardSet =
  set_id :: jsstring
  set_name :: jsstring
  set_description :: jsstring
  set_imageUrl :: jsstring
  set_coverImageUrl :: "jsstring option"
  set_cardIds :: "jsstring list"
  set_cost :: number
  set_costPerCard :: number
  set_type :: "jsstring option"
  set_mana :: "number option"
  set_character :: "jsstring option"

record UserProfile =
  user_id :: jsstring
  email :: jsstring
  username :: "jsstring option"
  passwordHash :: jsstring
  manaReloadTokens :: "number option"
  manaIncreaseTokens :: "number option"
  lastLoginDate :: "jsstring option"
  profileImageUrl :: "jsstring option"
  bio :: "jsstring option"
  interests :: "jsstring option"
  location :: "jsstring option"
  website :: "jsstring option"
  collectionCardIds :: "jsstring list"
  collectionSetIds :: "jsstring list"
  followingIds :: "jsstring list"
  friendIds :: "jsstring list"
  friendRequestIds :: "jsstring list"
  ageVerifiedAt :: "jsstring option"
  isAdmin :: "jsstring option"

section \<open>Mana ledger (utils/manaManager.ts)\<close>

text \<open>
  One entry of \<open>manaState.json\<close>. The file as a whole is a map from card ids to entries;
  a missing or unreadable file reads as the empty map.
\<close>

record ManaEntry =
  lastRechargeDate :: jsstring
  currentMana :: number

type_synonym ManaState = "jsstring \<rightharpoonup> ManaEntry"

text \<open>\<open>fs.writeFile\<close> replaces the whole content of the file.\<close>

definition writeFile :: "ManaState \<Rightarrow> ManaState \<Rightarrow> ManaState" where
  "writeFile content file = content"

text \<open>
  Every function takes the card catalog (\<open>getDatabase().cards\<close>), the value of
  \<open>getTodayDate()\<close> and the content of the state file, and returns its result together
  with the content of the file afterwards.
\<close>

definition rechargeManaIfNeeded ::
  "(jsstring \<rightharpoonup> Card) \<Rightarrow> jsstring \<Rightarrow> ManaState \<Rightarrow> jsstring \<Rightarrow> number option
     \<Rightarrow> number \<times> ManaState" where
  "rechargeManaIfNeeded cards today file cardId baseOverride =
     (case cards cardId of
        None \<Rightarrow> (0, file)
      | Some crd \<Rightarrow>
          let baseMana = (case baseOverride of
                            Some b \<Rightarrow> b
                          | None \<Rightarrow> or_num (mana (attributes crd)) 5);
              manaState = file;
              cardState = manaState cardId;
              lastRecharge = (case cardState of
                                None \<Rightarrow> today
                              | Some e \<Rightarrow> or_str (lastRechargeDate e) today)
          in if lastRecharge \<noteq> today
             then (baseMana,
                   writeFile (manaState(cardId \<mapsto>
                     \<lparr>lastRechargeDate = today, currentMana = baseMana\<rparr>)) file)
             else (case cardState of None \<Rightarrow> baseMana | Some e \<Rightarrow> currentMana e, file))"

definition getCurrentMana ::
  "(jsstring \<rightharpoonup> Card) \<Rightarrow> jsstring \<Rightarrow> ManaState \<Rightarrow> jsstring \<Rightarrow> number option
     \<Rightarrow> number \<times> ManaState" where
  "getCurrentMana cards today file cardId baseOverride =
     rechargeManaIfNeeded cards today file cardId baseOverride"

text \<open>
  \<open>depleteMana\<close> parses the file into its local \<open>manaState\<close> before it awaits
  \<open>rechargeManaIfNeeded\<close>, which reads and writes the file on its own. The entry it
  decrements is the one parsed before that call, and its final \<open>writeFile\<close> replaces
  whatever the recharge wrote.
\<close>

definition depleteMana ::
  "(jsstring \<rightharpoonup> Card) \<Rightarrow> jsstring \<Rightarrow> ManaState \<Rightarrow> jsstring \<Rightarrow> number \<times> ManaState" where
  "depleteMana cards today file cardId =
     (case cards cardId of
        None \<Rightarrow> (0, file)
      | Some crd \<Rightarrow>
          let baseMana = or_num (mana (attributes crd)) 5;
              manaState = file;
              file1 = snd (rechargeManaIfNeeded cards today file cardId None);
              cardState = manaState cardId;
              current = (case cardState of None \<Rightarrow> baseMana | Some e \<Rightarrow> currentMana e);
              newMana = max 0 (current - 1);
              manaState' = manaState(cardId \<mapsto>
                 \<lparr>lastRechargeDate = today, currentMana = newMana\<rparr>)
          in (newMana, writeFile manaState' file1))"

definition setCurrentMana ::
  "(jsstring \<rightharpoonup> Card) \<Rightarrow> jsstring \<Rightarrow> ManaState \<Rightarrow> jsstring \<Rightarrow> number \<Rightarrow> number \<times> ManaState" where
  "setCurrentMana cards today file cardId v =
     (case cards cardId of
        None \<Rightarrow> (0, file)
      | Some crd \<Rightarrow>
          let manaState = file;
              entry = \<lparr>lastRechargeDate =
                         (case manaState cardId of
                            None \<Rightarrow> today
                          | Some e \<Rightarrow> or_str (lastRechargeDate e) today),
                       currentMana = max 0 (of_int \<lfloor>v\<rfloor>)\<rparr>
          in (currentMana entry, writeFile (manaState(cardId \<mapsto> entry)) file))"

section \<open>Storage (data/database.ts, data/prismaClient.ts, data/databaseAdapter.ts)\<close>

text \<open>
  The process keeps two stores. The in-memory \<open>db\<close> of \<open>data/database.ts\<close> holds the
  \<open>Map\<close>s \<open>users\<close>, \<open>cards\<close> and \<open>sets\<close> read from the JSON files; \<open>getDatabase()\<close>
  returns it, and \<open>startServer\<close> loads it in either mode (\<open>st_users\<close>, \<open>st_cards\<close>,
  \<open>st_sets\<close>). The PostgreSQL tables are reached through the Prisma client (\<open>pg_users\<close>,
  \<open>pg_cards\<close>, \<open>pg_sets\<close>: the rows, each user and set with the ids joined to it, in the
  order \<open>findMany\<close> returns them). \<open>createCard\<close>, \<open>updateCard\<close>, \<open>createUser\<close> and
  \<open>updateUser\<close> write to the store of the active mode only, so the two stores need not
  hold the same records.

  A \<open>Map\<close> that is enumerated is an association list in insertion order: \<open>get\<close> is
  \<open>map_of\<close>, \<open>values()\<close> lists the second components, and \<open>set\<close> replaces the value
  of a key where it stands or appends a new key (\<open>AList.update\<close>). The card catalog is
  only ever looked up by id and is a map. \<open>manaManager.ts\<close> reads the card catalog through
  \<open>getDatabase().cards\<close>, that is \<open>st_cards\<close>, in either mode.
\<close>

datatype database_mode = Prisma | Json

record AppState =
  env_DATABASE_URL :: "jsstring option"
  pg_users :: "(jsstring \<times> UserProfile) list"
  pg_cards :: "jsstring \<rightharpoonup> Card"
  pg_sets :: "CardSet list"
  st_users :: "(jsstring \<times> UserProfile) list"
  st_cards :: "jsstring \<rightharpoonup> Card"
  st_sets :: "(jsstring \<times> CardSet) list"
  st_manaFile :: ManaState

text \<open>
  \<open>getPrismaClient()\<close> returns the client when \<open>process.env.DATABASE_URL\<close> is set and
  \<open>null\<close> otherwise (constructing the client is taken to succeed); the result here is
  whether there is a client. \<open>getDatabaseMode()\<close> caches its first answer, and
  \<open>DATABASE_URL\<close> does not change while the process runs.
\<close>

definition getPrismaClient :: "AppState \<Rightarrow> bool" where
  "getPrismaClient st =
     (case env_DATABASE_URL st of None \<Rightarrow> False | Some url \<Rightarrow> url \<noteq> [])"

definition getDatabaseMode :: "AppState \<Rightarrow> database_mode" where
  "getDatabaseMode st = (if getPrismaClient st then Prisma else Json)"

definition getCard :: "AppState \<Rightarrow> jsstring \<Rightarrow> Card option" where
  "getCard st cardId =
     (if getDatabaseMode st = Prisma then pg_cards st cardId
      else st_cards st cardId)"

definition getAllSets :: "AppState \<Rightarrow> CardSet list" where
  "getAllSets st =
     (if getDatabaseMode st = Prisma then pg_sets st
      else map snd (st_sets st))"

definition getUser :: "AppState \<Rightarrow> jsstring \<Rightarrow> UserProfile option" where
  "getUser st userId =
     (if getDatabaseMode st = Prisma then map_of (pg_users st) userId
      else map_of (st_users st) userId)"


text \<open>
  \<open>updateUser(id, updates)\<close>: the keys of \<open>updates\<close> replace those of the stored user
  (\<open>{ ...user, ...updates }\<close> in JSON mode, \<open>prisma.user.update\<close> with those columns
  in Prisma mode); \<open>updates\<close> is given as the record update it performs. In JSON mode a
  missing id throws \<open>Error('User not found')\<close>; in Prisma mode \<open>update\<close> rejects when no
  row has the id.
\<close>

datatype repo_error = UserNotFound | RecordNotFound

definition updateUser ::
  "AppState \<Rightarrow> jsstring \<Rightarrow> (UserProfile \<Rightarrow> UserProfile) \<Rightarrow> repo_error + AppState" where
  "updateUser st userId updates =
     (if getDatabaseMode st = Prisma
      then (case map_of (pg_users st) userId of
              None \<Rightarrow> Inl RecordNotFound
            | Some row \<Rightarrow>
                Inr (st\<lparr>pg_users := AList.update userId (updates row) (pg_users st)\<rparr>))
      else (case map_of (st_users st) userId of
              None \<Rightarrow> Inl UserNotFound
            | Some user \<Rightarrow>
                Inr (st\<lparr>st_users := AList.update userId (updates user) (st_users st)\<rparr>)))"

section \<open>Mana routes (saved-chat routes) and the daily grant (routes/auth.ts)\<close>

text \<open>
  The collection bonus, written out in each mana route: the card's \<open>attributes.mana || 5\<close>
  plus one for every set of the card's character that the user owns.
\<close>

definition baseManaWithBonus :: "Card \<Rightarrow> UserProfile \<Rightarrow> CardSet list \<Rightarrow> number" where
  "baseManaWithBonus crd user allSets =
     (let baseMana = or_num (mana (attributes crd)) 5
      in case card_character crd of
           None \<Rightarrow> baseMana
         | Some ch \<Rightarrow>
             if ch = [] then baseMana
             else baseMana + of_nat (length (filter
                    (\<lambda>s. set_character s = Some ch \<and> set_id s \<in> set (collectionSetIds user))
                    allSets)))"

text \<open>
  A request carries the user id set by the authentication middleware and the
  \<open>x-user-id\<close> header; the handler takes \<open>req.userId || req.headers['x-user-id']\<close>.
\<close>

record request =
  req_userId :: "jsstring option"
  req_header_userId :: "jsstring option"

definition requestUserId :: "request \<Rightarrow> jsstring option" where
  "requestUserId req =
     (let u = (case req_userId req of
                 Some a \<Rightarrow> if a = [] then req_header_userId req else Some a
               | None \<Rightarrow> req_header_userId req)
      in case u of Some a \<Rightarrow> if a = [] then None else Some a | None \<Rightarrow> None)"

text \<open>
  The answers of the mana routes: the error statuses, \<open>ManaRead currentMana baseMana\<close>
  of the \<open>GET\<close> route, \<open>NoMana baseMana\<close> (status 400, \<open>currentMana: 0\<close>) and
  \<open>ManaDepleted currentMana baseMana\<close> of the deplete route, and
  \<open>ManaApplied currentMana baseMana tokensRemaining\<close> of the two redemptions.
\<close>

datatype response =
    Unauthorized
  | NotFound
  | NotOwned
  | BadRequest jsstring
  | ManaRead number number
  | NoMana number
  | ManaDepleted number number
  | ManaApplied number number number
  | InternalServerError

definition noTokens :: "number option \<Rightarrow> bool" where
  "noTokens t = (case t of None \<Rightarrow> True | Some n \<Rightarrow> n = 0 \<or> n \<le> 0)"

definition tokensOrZero :: "number option \<Rightarrow> number" where
  "tokensOrZero t = (case t of None \<Rightarrow> 0 | Some n \<Rightarrow> or_num n 0)"

text \<open>\<open>GET /card/:cardId/mana\<close>.\<close>

definition manaHandler :: "jsstring \<Rightarrow> AppState \<Rightarrow> request \<Rightarrow> jsstring \<Rightarrow> response \<times> AppState" where
  "manaHandler today st req cardId =
     (case requestUserId req of
        None \<Rightarrow> (Unauthorized, st)
      | Some userId \<Rightarrow>
          (case getCard st cardId of
             None \<Rightarrow> (NotFound, st)
           | Some crd \<Rightarrow>
               (case getUser st userId of
                  None \<Rightarrow> (NotOwned, st)
                | Some user \<Rightarrow>
                    if cardId \<notin> set (collectionCardIds user) then (NotOwned, st)
                    else
                      let baseMana = baseManaWithBonus crd user (getAllSets st);
                          (current, file') =
                             getCurrentMana (st_cards st) today (st_manaFile st) cardId
                               (Some baseMana)
                      in (ManaRead current baseMana, st\<lparr>st_manaFile := file'\<rparr>))))"


text \<open>
  \<open>POST /card/:cardId/reload\<close>. The user and the card come from the adapter; the value
  is stored by \<open>setCurrentMana\<close>, which looks the card up in \<open>getDatabase().cards\<close>.
\<close>

definition reloadHandler :: "jsstring \<Rightarrow> AppState \<Rightarrow> request \<Rightarrow> jsstring \<Rightarrow> response \<times> AppState" where
  "reloadHandler today st req cardId =
     (case requestUserId req of
        None \<Rightarrow> (Unauthorized, st)
      | Some userId \<Rightarrow>
          (case (getUser st userId, getCard st cardId) of
             (Some user, Some crd) \<Rightarrow>
               if cardId \<notin> set (collectionCardIds user) then (NotOwned, st)
               else if noTokens (manaReloadTokens user)
               then (BadRequest (js ''No mana reloads available''), st)
               else
                 let baseMana = baseManaWithBonus crd user (getAllSets st);
                     (newMana, file') =
                        setCurrentMana (st_cards st) today (st_manaFile st) cardId baseMana;
                     st1 = st\<lparr>st_manaFile := file'\<rparr>;
                     updatedTokens = max 0 (tokensOrZero (manaReloadTokens user) - 1)
                 in (case updateUser st1 userId (\<lambda>u. u\<lparr>manaReloadTokens := Some updatedTokens\<rparr>) of
                       Inl e \<Rightarrow> (InternalServerError, st1)
                     | Inr st2 \<Rightarrow> (ManaApplied newMana baseMana updatedTokens, st2))
           | _ \<Rightarrow> (NotFound, st)))"




section \<open>Example data\<close>

definition exampleCard :: Card where
  "exampleCard =
     \<lparr>card_id = js ''c1'', card_imageUrl = [], card_title = js ''Luna'',
      card_description = [], card_type = js ''spell'', card_cost = 3,
      attributes = \<lparr>mana = 5, resistance = 1, charm = 1, devotion = 1\<rparr>,
      card_character = Some (js ''luna'')\<rparr>"

definition exampleSet :: "jsstring \<Rightarrow> CardSet" where
  "exampleSet sid =
     \<lparr>set_id = sid, set_name = [], set_description = [], set_imageUrl = [],
      set_coverImageUrl = None, set_cardIds = [js ''c1''], set_cost = 10,
      set_costPerCard = 2, set_type = None, set_mana = None,
      set_character = Some (js ''luna'')\<rparr>"

definition exampleUser :: UserProfile where
  "exampleUser =
     \<lparr>user_id = js ''u1'', email = js ''a@b.c'', username = None,
      passwordHash = js ''hash'', manaReloadTokens = Some 1, manaIncreaseTokens = Some 0,
      lastLoginDate = Some (js ''2025-01-01''), profileImageUrl = None, bio = None,
      interests = None, location = None, website = None,
      collectionCardIds = [js ''c1''], collectionSetIds = [js ''s1'', js ''s2''],
      followingIds = [], friendIds = [], friendRequestIds = [],
      ageVerifiedAt = None, isAdmin = None\<rparr>"

text \<open>
  A process in JSON mode: one card of base mana 5, three sets of its character, and the
  user \<open>u1\<close>, who owns the card and two of the sets.
\<close>

definition exampleState :: AppState where
  "exampleState =
     \<lparr>env_DATABASE_URL = None,
      pg_users = [], pg_cards = Map.empty, pg_sets = [],
      st_users = [(js ''u1'', exampleUser)],
      st_cards = [js ''c1'' \<mapsto> exampleCard],
      st_sets = [(js ''s1'', exampleSet (js ''s1'')), (js ''s2'', exampleSet (js ''s2'')),
                 (js ''s3'', exampleSet (js ''s3''))],
      st_manaFile = Map.empty\<rparr>"

definition staleFile :: ManaState where
  "staleFile = [js ''c1'' \<mapsto> \<lparr>lastRechargeDate = js ''2025-01-01'', currentMana = 2\<rparr>]"

definition exampleRequest :: request where
  "exampleRequest = \<lparr>req_userId = Some (js ''u1''), req_header_userId = None\<rparr>"












text \<open>
  A process in Prisma mode whose user, card and sets were created through the adapter:
  they are rows of PostgreSQL, and the JSON files hold nothing.
\<close>

definition prismaState :: AppState where
  "prismaState =
     \<lparr>env_DATABASE_URL = Some (js ''postgresql://db/app''),
      pg_users = [(js ''u1'', exampleUser)],
      pg_cards = [js ''c1'' \<mapsto> exampleCard],
      pg_sets = [exampleSet (js ''s3''), exampleSet (js ''s2''), exampleSet (js ''s1'')],
      st_users = [], st_cards = Map.empty, st_sets = [],
      st_manaFile = Map.empty\<rparr>"






section \<open>Runtime library used by the cipher\<close>

text \<open>
  The block cipher and hash of Node's \<open>crypto\<close> module, the UTF-8 decoder behind
  \<open>decipher.update(_, 'hex', 'utf8')\<close> and \<open>String.prototype.toLowerCase\<close> belong to the
  runtime, not to this repository; they are parameters. \<open>aes256cbc_encrypt key iv data\<close>
  stands for \<open>createCipheriv('aes-256-cbc', key, iv)\<close> followed by \<open>update\<close> and
  \<open>final\<close>, and is \<open>None\<close> where any of the three throws (a key that is not 32 bytes,
  an IV that is not 16 bytes); \<open>aes256cbc_decrypt\<close> likewise for \<open>createDecipheriv\<close>
  (also \<open>None\<close> on a wrong final block).
\<close>

record runtime =
  aes256cbc_encrypt :: "buffer \<Rightarrow> buffer \<Rightarrow> buffer \<Rightarrow> buffer option"
  aes256cbc_decrypt :: "buffer \<Rightarrow> buffer \<Rightarrow> buffer \<Rightarrow> buffer option"
  sha256 :: "buffer \<Rightarrow> buffer"
  utf8_decode :: "buffer \<Rightarrow> jsstring"
  toLowerCase :: "jsstring \<Rightarrow> jsstring"

text \<open>
  Encoding a string as UTF-8 (\<open>cipher.update(text, 'utf8', _)\<close>, \<open>hash.update(string)\<close>):
  a high surrogate followed by a low surrogate is one code point of four bytes; a
  surrogate on its own is written as U+FFFD (\<open>EF BF BD\<close>).
\<close>

definition isHighSurrogate :: "16 word \<Rightarrow> bool" where
  "isHighSurrogate c = (0xD800 \<le> c \<and> c \<le> 0xDBFF)"

definition isLowSurrogate :: "16 word \<Rightarrow> bool" where
  "isLowSurrogate c = (0xDC00 \<le> c \<and> c \<le> 0xDFFF)"

definition encodeCodePoint :: "nat \<Rightarrow> buffer" where
  "encodeCodePoint n =
     (if n < 0x80 then [of_nat n]
      else if n < 0x800 then [of_nat (0xC0 + n div 64), of_nat (0x80 + n mod 64)]
      else if n < 0x10000
      then [of_nat (0xE0 + n div 4096), of_nat (0x80 + (n div 64) mod 64),
            of_nat (0x80 + n mod 64)]
      else [of_nat (0xF0 + n div 262144), of_nat (0x80 + (n div 4096) mod 64),
            of_nat (0x80 + (n div 64) mod 64), of_nat (0x80 + n mod 64)])"

definition encodeUnit :: "16 word \<Rightarrow> buffer" where
  "encodeUnit c =
     (if isHighSurrogate c \<or> isLowSurrogate c then [0xEF, 0xBF, 0xBD]
      else encodeCodePoint (unat c))"

fun utf8_encode :: "jsstring \<Rightarrow> buffer" where
  "utf8_encode [] = []"
| "utf8_encode [c] = encodeUnit c"
| "utf8_encode (c # d # cs) =
     (if isHighSurrogate c \<and> isLowSurrogate d
      then encodeCodePoint (0x10000 + (unat c - 0xD800) * 0x400 + (unat d - 0xDC00))
           @ utf8_encode cs
      else encodeUnit c @ utf8_encode (d # cs))"

text \<open>
  A string is well formed when every surrogate in it is paired: a high surrogate is
  followed by a low one, and a low surrogate follows a high one.
\<close>

fun wellFormed :: "jsstring \<Rightarrow> bool" where
  "wellFormed [] = True"
| "wellFormed [c] = (\<not> isHighSurrogate c \<and> \<not> isLowSurrogate c)"
| "wellFormed (c # d # cs) =
     (if isHighSurrogate c then isLowSurrogate d \<and> wellFormed cs
      else \<not> isLowSurrogate c \<and> wellFormed (d # cs))"

text \<open>\<open>buffer.toString('hex')\<close>: two lower-case hexadecimal digits per byte.\<close>

definition hexDigit :: "nat \<Rightarrow> 16 word" where
  "hexDigit n = (if n < 10 then of_nat (48 + n) else of_nat (87 + n))"

definition hexEncode :: "buffer \<Rightarrow> jsstring" where
  "hexEncode bs = concat (map (\<lambda>b. [hexDigit (unat b div 16), hexDigit (unat b mod 16)]) bs)"

text \<open>
  \<open>Buffer.from(s, 'hex')\<close>: pairs of hexadecimal digits of either case, read until the
  first pair that is not one; a last digit without a partner is dropped.
\<close>

definition hexValue :: "16 word \<Rightarrow> nat option" where
  "hexValue c =
     (let n = unat c
      in if 48 \<le> n \<and> n \<le> 57 then Some (n - 48)
         else if 97 \<le> n \<and> n \<le> 102 then Some (n - 87)
         else if 65 \<le> n \<and> n \<le> 70 then Some (n - 55)
         else None)"

fun hexDecode :: "jsstring \<Rightarrow> buffer" where
  "hexDecode (a # b # cs) =
     (case (hexValue a, hexValue b) of
        (Some x, Some y) \<Rightarrow> of_nat (16 * x + y) # hexDecode cs
      | _ \<Rightarrow> [])"
| "hexDecode _ = []"

text \<open>\<open>s.split(sep)\<close> for a separator of one code unit; \<open>''.split(':')\<close> is \<open>['']\<close>.\<close>

fun split_on :: "16 word \<Rightarrow> jsstring \<Rightarrow> jsstring list" where
  "split_on sep [] = [[]]"
| "split_on sep (c # cs) =
     (case split_on sep cs of
        [] \<Rightarrow> [[c]]
      | p # ps \<Rightarrow> if c = sep then [] # p # ps else (c # p) # ps)"

definition colon :: "16 word" where
  "colon = 0x3A"

definition atSign :: "16 word" where
  "atSign = 0x40"



section \<open>Cipher (utils/encryption.ts)\<close>



text \<open>
  What the functions of the module read: \<open>ENCRYPTION_KEY\<close>, the module constant, and
  \<open>env_ENCRYPTION_KEY\<close>, the value of \<open>process.env.ENCRYPTION_KEY\<close> when
  \<open>decryptMessage\<close> runs. \<open>loadedConfig\<close> is the configuration of a process started
  in a given environment: the constant is \<open>const ENCRYPTION_KEY = getEncryptionKey()\<close>,
  and the variable is the one the module was loaded with (the entry points import
  \<open>dotenv/config\<close> before this module, and nothing assigns the variable afterwards).
\<close>

record config =
  ENCRYPTION_KEY :: jsstring
  env_ENCRYPTION_KEY :: "jsstring option"


datatype crypto_error = EncryptFailed | InvalidEncryptedMessage | DecryptFailed

definition getKey :: "runtime \<Rightarrow> jsstring \<Rightarrow> buffer" where
  "getKey rt encryptionKey =
     (let key = hexDecode encryptionKey
      in if length key = 32 then key else sha256 rt (utf8_encode encryptionKey))"

definition encryptMessageWithIV ::
  "runtime \<Rightarrow> config \<Rightarrow> jsstring \<Rightarrow> buffer \<Rightarrow> crypto_error + jsstring" where
  "encryptMessageWithIV rt cfg text iv =
     (let key = getKey rt (ENCRYPTION_KEY cfg)
      in case aes256cbc_encrypt rt key iv (utf8_encode text) of
           None \<Rightarrow> Inl EncryptFailed
         | Some encrypted \<Rightarrow> Inr (hexEncode iv @ [colon] @ hexEncode encrypted))"

text \<open>
  \<open>encryptMessage\<close> draws its IV with \<open>crypto.randomBytes(IV_LENGTH)\<close>; the 16 bytes
  drawn are an argument of the model.
\<close>

definition encryptMessage ::
  "runtime \<Rightarrow> config \<Rightarrow> buffer \<Rightarrow> jsstring \<Rightarrow> crypto_error + jsstring" where
  "encryptMessage rt cfg randomBytes text =
     (case encryptMessageWithIV rt cfg text randomBytes of
        Inl e \<Rightarrow> Inl EncryptFailed
      | Inr r \<Rightarrow> Inr r)"

definition decryptMessage :: "runtime \<Rightarrow> config \<Rightarrow> jsstring \<Rightarrow> crypto_error + jsstring" where
  "decryptMessage rt cfg encryptedText =
     (if encryptedText = [] then Inl InvalidEncryptedMessage
      else case split_on colon encryptedText of
        [ivHex, encrypted] \<Rightarrow>
          let iv = hexDecode ivHex
          in if length iv \<noteq> 16 then Inl DecryptFailed
             else
               let key = getKey rt (ENCRYPTION_KEY cfg)
               in (case aes256cbc_decrypt rt key iv (hexDecode encrypted) of
                     Some decrypted \<Rightarrow> Inr (utf8_decode rt decrypted)
                   | None \<Rightarrow>
                       (case env_ENCRYPTION_KEY cfg of
                          None \<Rightarrow> Inl DecryptFailed
                        | Some envValue \<Rightarrow>
                            if envValue \<noteq> [] \<and> envValue \<noteq> ENCRYPTION_KEY cfg
                            then (case aes256cbc_decrypt rt (getKey rt envValue) iv
                                         (hexDecode encrypted) of
                                    Some decrypted \<Rightarrow> Inr (utf8_decode rt decrypted)
                                  | None \<Rightarrow> Inl DecryptFailed)
                            else Inl DecryptFailed))
      | _ \<Rightarrow> Inl DecryptFailed)"

section \<open>Lookup by e-mail (utils/userEmailHelper.ts)\<close>





section \<open>Identity codec (utils/userHelpers.ts)\<close>

text \<open>
  The object returned by \<open>decryptUserData\<close>. A key that the object does not carry, or
  carries as \<open>undefined\<close>, is \<open>None\<close>; \<open>view_passwordHash\<close> records that the key
  \<open>passwordHash\<close> is removed by the destructuring.
\<close>

record UserView =
  view_id :: jsstring
  view_email :: jsstring
  view_username :: "jsstring option"
  view_passwordHash :: "jsstring option"
  view_manaReloadTokens :: "number option"
  view_manaIncreaseTokens :: "number option"
  view_lastLoginDate :: "jsstring option"
  view_profileImageUrl :: "jsstring option"
  view_bio :: "jsstring option"
  view_interests :: "jsstring option"
  view_location :: "jsstring option"
  view_website :: "jsstring option"
  view_collectionCardIds :: "jsstring list"
  view_collectionSetIds :: "jsstring list"
  view_followingIds :: "jsstring list"
  view_friendIds :: "jsstring list"
  view_friendRequestIds :: "jsstring list"
  view_ageVerifiedAt :: "jsstring option"
  view_isAdmin :: "bool option"

text \<open>\<open>try { body } catch { handler }\<close> and sequencing, on results that may be an error.\<close>

definition try_catch :: "('e + 'a) \<Rightarrow> ('e \<Rightarrow> 'e + 'a) \<Rightarrow> 'e + 'a" where
  "try_catch body handler = (case body of Inl e \<Rightarrow> handler e | Inr v \<Rightarrow> Inr v)"

definition and_then :: "('e + 'a) \<Rightarrow> ('a \<Rightarrow> 'e + 'b) \<Rightarrow> 'e + 'b" where
  "and_then r f = (case r of Inl e \<Rightarrow> Inl e | Inr v \<Rightarrow> f v)"

text \<open>\<open>x || undefined\<close> on an optional string.\<close>

definition orUndefined :: "jsstring option \<Rightarrow> jsstring option" where
  "orUndefined x = (case x of None \<Rightarrow> None | Some s \<Rightarrow> if s = [] then None else Some s)"

definition decryptEmailField :: "runtime \<Rightarrow> config \<Rightarrow> UserProfile \<Rightarrow> crypto_error + jsstring" where
  "decryptEmailField rt cfg user =
     (if email user = [] then Inr (js ''email@missing.com'')
      else try_catch
             (if colon \<in> set (email user)
              then try_catch
                     (and_then (decryptMessage rt cfg (email user))
                        (\<lambda>decryptedEmail.
                           if decryptedEmail = [] \<or> atSign \<notin> set decryptedEmail
                           then Inr (email user)
                           else Inr decryptedEmail))
                     (\<lambda>decryptError. Inr (email user))
              else Inr (email user))
             (\<lambda>error. Inr (email user)))"

definition decryptUsernameField ::
  "runtime \<Rightarrow> config \<Rightarrow> UserProfile \<Rightarrow> crypto_error + jsstring option" where
  "decryptUsernameField rt cfg user =
     (case orUndefined (username user) of
        None \<Rightarrow> Inr (Some [])
      | Some name \<Rightarrow>
          try_catch
            (if colon \<in> set name
             then try_catch
                    (and_then (decryptMessage rt cfg name) (\<lambda>d. Inr (Some d)))
                    (\<lambda>decryptError. Inr None)
             else Inr (Some name))
            (\<lambda>error. Inr None))"

text \<open>\<open>bio\<close>, \<open>interests\<close> and \<open>location\<close> are treated by three copies of one block.\<close>

definition decryptOptionalField ::
  "runtime \<Rightarrow> config \<Rightarrow> jsstring option \<Rightarrow> crypto_error + jsstring option" where
  "decryptOptionalField rt cfg field =
     (case orUndefined field of
        None \<Rightarrow> Inr (Some [])
      | Some stored \<Rightarrow>
          try_catch
            (and_then (decryptMessage rt cfg stored) (\<lambda>d. Inr (Some d)))
            (\<lambda>error. Inr (Some stored)))"

definition decryptIsAdminField ::
  "runtime \<Rightarrow> config \<Rightarrow> UserProfile \<Rightarrow> crypto_error + bool option" where
  "decryptIsAdminField rt cfg user =
     (case orUndefined (isAdmin user) of
        None \<Rightarrow> Inr None
      | Some stored \<Rightarrow>
          try_catch
            (and_then (decryptMessage rt cfg stored)
               (\<lambda>decryptedValue. Inr (Some (decryptedValue = js ''true''))))
            (\<lambda>error. Inr (Some (stored = js ''true''))))"

definition decryptUserData :: "runtime \<Rightarrow> config \<Rightarrow> UserProfile \<Rightarrow> crypto_error + UserView" where
  "decryptUserData rt cfg user =
     and_then (decryptEmailField rt cfg user) (\<lambda>decryptedEmail.
     and_then (decryptUsernameField rt cfg user) (\<lambda>decryptedUsername.
     and_then (decryptOptionalField rt cfg (bio user)) (\<lambda>decryptedBio.
     and_then (decryptOptionalField rt cfg (interests user)) (\<lambda>decryptedInterests.
     and_then (decryptOptionalField rt cfg (location user)) (\<lambda>decryptedLocation.
     and_then (decryptIsAdminField rt cfg user) (\<lambda>decryptedIsAdmin.
       Inr \<lparr>view_id = user_id user,
            view_email = decryptedEmail,
            view_username = orUndefined decryptedUsername,
            view_passwordHash = None,
            view_manaReloadTokens = manaReloadTokens user,
            view_manaIncreaseTokens = manaIncreaseTokens user,
            view_lastLoginDate = lastLoginDate user,
            view_profileImageUrl = profileImageUrl user,
            view_bio = orUndefined decryptedBio,
            view_interests = orUndefined decryptedInterests,
            view_location = orUndefined decryptedLocation,
            view_website = website user,
            view_collectionCardIds = collectionCardIds user,
            view_collectionSetIds = collectionSetIds user,
            view_followingIds = followingIds user,
            view_friendIds = friendIds user,
            view_friendRequestIds = friendRequestIds user,
            view_ageVerifiedAt = ageVerifiedAt user,
            view_isAdmin = decryptedIsAdmin\<rparr>))))))"

section \<open>An example runtime\<close>

text \<open>
  A small instance of the runtime parameters, for evaluating the definitions on concrete
  inputs: a cipher that shifts every byte by the sums of key and IV and appends a key
  check byte (so that a wrong key is detected, as a wrong final block is), a hash that
  pads or cuts to 32 bytes, a UTF-8 decoder for sequences of one to four bytes that
  writes U+FFFD for a byte it cannot place, and lower-casing of the ASCII letters.
\<close>

definition exampleEncrypt :: "buffer \<Rightarrow> buffer \<Rightarrow> buffer \<Rightarrow> buffer option" where
  "exampleEncrypt key iv data =
     (if length key = 32 \<and> length iv = 16
      then Some (map (\<lambda>b. b + sum_list key + sum_list iv) data @ [sum_list key])
      else None)"

definition exampleDecrypt :: "buffer \<Rightarrow> buffer \<Rightarrow> buffer \<Rightarrow> buffer option" where
  "exampleDecrypt key iv data =
     (if length key = 32 \<and> length iv = 16 \<and> data \<noteq> [] \<and> last data = sum_list key
      then Some (map (\<lambda>b. b - sum_list key - sum_list iv) (butlast data))
      else None)"

definition exampleHash :: "buffer \<Rightarrow> buffer" where
  "exampleHash bs = take 32 (bs @ replicate 32 0)"

definition isContinuation :: "8 word \<Rightarrow> bool" where
  "isContinuation b = (0x80 \<le> b \<and> b \<le> 0xBF)"

fun exampleDecode :: "buffer \<Rightarrow> jsstring" where
  "exampleDecode [] = []"
| "exampleDecode (b # bs) =
     (let n = unat b
      in if n < 0x80 then of_nat n # exampleDecode bs
         else if 0xC2 \<le> n \<and> n \<le> 0xDF
         then (case bs of
                 b2 # r \<Rightarrow>
                   if isContinuation b2
                   then of_nat ((n - 0xC0) * 64 + (unat b2 - 0x80)) # exampleDecode r
                   else 0xFFFD # exampleDecode bs
               | _ \<Rightarrow> 0xFFFD # exampleDecode bs)
         else if 0xE0 \<le> n \<and> n \<le> 0xEF
         then (case bs of
                 b2 # b3 # r \<Rightarrow>
                   let cp = (n - 0xE0) * 4096 + (unat b2 - 0x80) * 64 + (unat b3 - 0x80)
                   in if isContinuation b2 \<and> isContinuation b3 \<and> 0x800 \<le> cp
                         \<and> \<not> (0xD800 \<le> cp \<and> cp \<le> 0xDFFF)
                      then of_nat cp # exampleDecode r
                      else 0xFFFD # exampleDecode bs
               | _ \<Rightarrow> 0xFFFD # exampleDecode bs)
         else if 0xF0 \<le> n \<and> n \<le> 0xF4
         then (case bs of
                 b2 # b3 # b4 # r \<Rightarrow>
                   let cp = (n - 0xF0) * 262144 + (unat b2 - 0x80) * 4096
                            + (unat b3 - 0x80) * 64 + (unat b4 - 0x80)
                   in if isContinuation b2 \<and> isContinuation b3 \<and> isContinuation b4
                         \<and> 0x10000 \<le> cp \<and> cp \<le> 0x10FFFF
                      then of_nat (0xD800 + (cp - 0x10000) div 0x400)
                           # of_nat (0xDC00 + (cp - 0x10000) mod 0x400) # exampleDecode r
                      else 0xFFFD # exampleDecode bs
               | _ \<Rightarrow> 0xFFFD # exampleDecode bs)
         else 0xFFFD # exampleDecode bs)"

definition exampleLower :: "jsstring \<Rightarrow> jsstring" where
  "exampleLower s = map (\<lambda>c. if 0x41 \<le> c \<and> c \<le> 0x5A then c + 0x20 else c) s"

definition exampleRuntime :: runtime where
  "exampleRuntime =
     \<lparr>aes256cbc_encrypt = exampleEncrypt, aes256cbc_decrypt = exampleDecrypt,
      sha256 = exampleHash, utf8_decode = exampleDecode, toLowerCase = exampleLower\<rparr>"

definition exampleIV :: buffer where
  "exampleIV = [0, 1, 2, 3, 4, 5, 6, 7, 8, 9, 10, 11, 12, 13, 14, 15]"



text \<open>The configuration of a process that knows only the key \<open>old-key\<close>.\<close>

definition oldConfig :: config where
  "oldConfig = \<lparr>ENCRYPTION_KEY = js ''old-key'', env_ENCRYPTION_KEY = None\<rparr>"

text \<open>
  A record whose e-mail \<open>a@b.c\<close>, user name \<open>bob\<close> and location \<open>bob\<close> were
  encrypted under \<open>old-key\<close> with the example IV, and whose \<open>bio\<close> and \<open>interests\<close>
  are legacy plain text.
\<close>

definition rotatedUser :: UserProfile where
  "rotatedUser =
     exampleUser\<lparr>email := js ''000102030405060708090a0b0c0d0e0f:8e6d8f5b90b5'',
                 username := Some (js ''000102030405060708090a0b0c0d0e0f:8f9c8fb5''),
                 bio := Some (js ''hello''),
                 interests := Some (js ''chess''),
                 location := Some (js ''000102030405060708090a0b0c0d0e0f:8f9c8fb5'')\<rparr>"




text \<open>A process that knows only \<open>new-key\<close>.\<close>

definition newConfig :: config where
  "newConfig = \<lparr>ENCRYPTION_KEY = js ''new-key'', env_ENCRYPTION_KEY = None\<rparr>"

section \<open>Properties of the mana ledger\<close>

lemma rechargeManaIfNeeded_found:
  "cards cardId = Some crd \<Longrightarrow>
   rechargeManaIfNeeded cards today mf cardId (Some b) =
     (case mf cardId of
        None \<Rightarrow> (b, mf)
      | Some e \<Rightarrow>
          if or_str (lastRechargeDate e) today \<noteq> today
          then (b, mf(cardId \<mapsto> \<lparr>lastRechargeDate = today, currentMana = b\<rparr>))
          else (currentMana e, mf))"
  by (simp add: rechargeManaIfNeeded_def writeFile_def Let_def split: option.splits)

lemma depleteMana_found:
  "cards cardId = Some crd \<Longrightarrow>
   depleteMana cards today mf cardId =
     (let current = (case mf cardId of
                       None \<Rightarrow> or_num (mana (attributes crd)) 5
                     | Some e \<Rightarrow> currentMana e)
      in (max 0 (current - 1),
          mf(cardId \<mapsto> \<lparr>lastRechargeDate = today, currentMana = max 0 (current - 1)\<rparr>)))"
  by (simp add: depleteMana_def writeFile_def Let_def)

lemma setCurrentMana_found:
  "cards cardId = Some crd \<Longrightarrow>
   setCurrentMana cards today mf cardId v =
     (max 0 (of_int \<lfloor>v\<rfloor>),
      mf(cardId \<mapsto>
        \<lparr>lastRechargeDate = (case mf cardId of
                               None \<Rightarrow> today
                             | Some e \<Rightarrow> or_str (lastRechargeDate e) today),
         currentMana = max 0 (of_int \<lfloor>v\<rfloor>)\<rparr>))"
  by (simp add: setCurrentMana_def writeFile_def Let_def)

lemma exampleCard_found: "st_cards exampleState (js ''c1'') = Some exampleCard"
  by (simp add: exampleState_def)

text \<open>
  Every entry the ledger writes is stamped with today's date or keeps the date it had, so
  dates stay non-empty once they are: the empty date, which \<open>|| today\<close> reads as
  today, does not arise from the ledger's own writes.
\<close>

lemma dates_stay_nonempty:
  assumes "today \<noteq> []" and "\<forall>e. mf c = Some e \<longrightarrow> lastRechargeDate e \<noteq> []"
  shows "\<forall>e. snd (rechargeManaIfNeeded cards today mf cardId b) c = Some e
              \<longrightarrow> lastRechargeDate e \<noteq> []"
    and "\<forall>e. snd (depleteMana cards today mf cardId) c = Some e \<longrightarrow> lastRechargeDate e \<noteq> []"
    and "\<forall>e. snd (setCurrentMana cards today mf cardId v) c = Some e
              \<longrightarrow> lastRechargeDate e \<noteq> []"
  using assms
  by (auto simp: rechargeManaIfNeeded_def depleteMana_def setCurrentMana_def writeFile_def
        Let_def or_str_def split: option.splits if_splits)

text \<open>
  C10. For a card id with no entry in the catalog, \<open>rechargeManaIfNeeded\<close>,
  \<open>getCurrentMana\<close>, \<open>depleteMana\<close> and \<open>setCurrentMana\<close> each return 0 and leave the
  persisted mana state as it was; none of them reports an error.
\<close>

theorem missing_card_returns_zero:
  "cards cardId = None \<Longrightarrow>
     rechargeManaIfNeeded cards today mf cardId b = (0, mf)
   \<and> getCurrentMana cards today mf cardId b = (0, mf)
   \<and> depleteMana cards today mf cardId = (0, mf)
   \<and> setCurrentMana cards today mf cardId v = (0, mf)"
  by (simp add: rechargeManaIfNeeded_def getCurrentMana_def depleteMana_def
        setCurrentMana_def)

theorem missing_card_returns_zero_witness:
  "st_cards exampleState (js ''zz'') = None
   \<and> rechargeManaIfNeeded (st_cards exampleState) (js ''2025-01-02'') Map.empty (js ''zz'') (Some 7)
       = (0, Map.empty)
   \<and> getCurrentMana (st_cards exampleState) (js ''2025-01-02'') Map.empty (js ''zz'') (Some 7)
       = (0, Map.empty)
   \<and> depleteMana (st_cards exampleState) (js ''2025-01-02'') Map.empty (js ''zz'') = (0, Map.empty)
   \<and> setCurrentMana (st_cards exampleState) (js ''2025-01-02'') Map.empty (js ''zz'') 4
       = (0, Map.empty)"
proof -
  have h: "st_cards exampleState (js ''zz'') = None"
    by (simp add: exampleState_def js_def)
  show ?thesis
    using h missing_card_returns_zero [where cards = "st_cards exampleState"
        and cardId = "js ''zz''" and today = "js ''2025-01-02''" and mf = Map.empty
        and b = "Some 7" and v = 4]
    by simp
qed


text \<open>
  C5. For a card of the catalog and a base-mana override \<open>b\<close>: when a stored entry exists
  and its (well-formed, non-empty) \<open>lastRechargeDate\<close> differs from today,
  \<open>rechargeManaIfNeeded\<close> stores \<open>currentMana = b\<close> with today's date and returns \<open>b\<close>,
  whatever the entry held; when the stored date is today it returns the stored
  \<open>currentMana\<close> and the file is unchanged; when there is no entry it returns \<open>b\<close> and
  writes nothing.
\<close>

theorem recharge_on_new_day:
  "cards cardId = Some crd \<Longrightarrow>
     (mf cardId = Some e \<and> lastRechargeDate e \<noteq> [] \<and> lastRechargeDate e \<noteq> today \<longrightarrow>
        rechargeManaIfNeeded cards today mf cardId (Some b) =
          (b, mf(cardId \<mapsto> \<lparr>lastRechargeDate = today, currentMana = b\<rparr>)))
   \<and> (mf cardId = Some e \<and> lastRechargeDate e = today \<longrightarrow>
        rechargeManaIfNeeded cards today mf cardId (Some b) = (currentMana e, mf))
   \<and> (mf cardId = None \<longrightarrow>
        rechargeManaIfNeeded cards today mf cardId (Some b) = (b, mf))"
  by (simp add: rechargeManaIfNeeded_found or_str_def)

theorem recharge_on_new_day_witness:
  "st_cards exampleState (js ''c1'') = Some exampleCard
   \<and> staleFile (js ''c1'') = Some \<lparr>lastRechargeDate = js ''2025-01-01'', currentMana = 2\<rparr>
   \<and> js ''2025-01-01'' \<noteq> [] \<and> js ''2025-01-01'' \<noteq> js ''2025-01-02''
   \<and> rechargeManaIfNeeded (st_cards exampleState) (js ''2025-01-02'') staleFile (js ''c1'') (Some 7)
       = (7, staleFile(js ''c1'' \<mapsto> \<lparr>lastRechargeDate = js ''2025-01-02'', currentMana = 7\<rparr>))
   \<and> rechargeManaIfNeeded (st_cards exampleState) (js ''2025-01-01'') staleFile (js ''c1'') (Some 7)
       = (2, staleFile)
   \<and> (Map.empty :: ManaState) (js ''c1'') = None
   \<and> rechargeManaIfNeeded (st_cards exampleState) (js ''2025-01-02'') Map.empty (js ''c1'') (Some 7)
       = (7, Map.empty)"
proof -
  let ?e = "\<lparr>lastRechargeDate = js ''2025-01-01'', currentMana = 2\<rparr>"
  have stored: "staleFile (js ''c1'') = Some ?e"
    by (simp add: staleFile_def)
  have dates: "js ''2025-01-01'' \<noteq> [] \<and> js ''2025-01-01'' \<noteq> js ''2025-01-02''"
    by (simp add: js_def)
  show ?thesis
    using stored dates exampleCard_found
      recharge_on_new_day [where cards = "st_cards exampleState" and cardId = "js ''c1''"
        and crd = exampleCard and mf = staleFile and e = ?e
        and today = "js ''2025-01-02''" and b = 7]
      recharge_on_new_day [where cards = "st_cards exampleState" and cardId = "js ''c1''"
        and crd = exampleCard and mf = staleFile and e = ?e
        and today = "js ''2025-01-01''" and b = 7]
      recharge_on_new_day [where cards = "st_cards exampleState" and cardId = "js ''c1''"
        and crd = exampleCard and mf = Map.empty and e = ?e
        and today = "js ''2025-01-02''" and b = 7]
    by simp
qed

text \<open>
  C9. For a card of the catalog and any number \<open>v\<close>, \<open>setCurrentMana\<close> stores and returns
  \<open>max(0, floor(v))\<close>; an existing (well-formed, non-empty) \<open>lastRechargeDate\<close> is kept,
  today's date is stamped when there was no entry, and no other card's entry changes.
  The witness evaluates \<open>v = -5\<close> to 0 and \<open>v = 3.9\<close> to 3.
\<close>

theorem setCurrentMana_clamps:
  "cards cardId = Some crd \<Longrightarrow>
     fst (setCurrentMana cards today mf cardId v) = max 0 (of_int \<lfloor>v\<rfloor>)
   \<and> (\<exists>entry. snd (setCurrentMana cards today mf cardId v) cardId = Some entry
          \<and> currentMana entry = max 0 (of_int \<lfloor>v\<rfloor>)
          \<and> (\<forall>e. mf cardId = Some e \<and> lastRechargeDate e \<noteq> [] \<longrightarrow>
                 lastRechargeDate entry = lastRechargeDate e)
          \<and> (mf cardId = None \<longrightarrow> lastRechargeDate entry = today))
   \<and> (\<forall>other. other \<noteq> cardId \<longrightarrow>
          snd (setCurrentMana cards today mf cardId v) other = mf other)"
  by (simp add: setCurrentMana_found or_str_def)

theorem setCurrentMana_clamps_witness:
  "st_cards exampleState (js ''c1'') = Some exampleCard
   \<and> fst (setCurrentMana (st_cards exampleState) (js ''2025-01-02'') staleFile (js ''c1'') (-5)) = 0
   \<and> fst (setCurrentMana (st_cards exampleState) (js ''2025-01-02'') staleFile (js ''c1'') (39 / 10)) = 3
   \<and> staleFile (js ''c1'') = Some \<lparr>lastRechargeDate = js ''2025-01-01'', currentMana = 2\<rparr>
   \<and> js ''2025-01-01'' \<noteq> []
   \<and> (\<exists>entry. snd (setCurrentMana (st_cards exampleState) (js ''2025-01-02'') staleFile
                    (js ''c1'') (39 / 10)) (js ''c1'') = Some entry
          \<and> currentMana entry = 3 \<and> lastRechargeDate entry = js ''2025-01-01'')
   \<and> js ''c2'' \<noteq> js ''c1''
   \<and> snd (setCurrentMana (st_cards exampleState) (js ''2025-01-02'') staleFile
               (js ''c1'') (39 / 10)) (js ''c2'') = staleFile (js ''c2'')"
proof -
  have stored: "staleFile (js ''c1'') = Some \<lparr>lastRechargeDate = js ''2025-01-01'', currentMana = 2\<rparr>"
    by (simp add: staleFile_def)
  have other: "js ''2025-01-01'' \<noteq> [] \<and> js ''c2'' \<noteq> js ''c1''"
    by (simp add: js_def)
  have fl: "\<lfloor>39 / 10 :: rat\<rfloor> = 3"
    by (simp add: floor_eq_iff)
  show ?thesis
    using stored other fl exampleCard_found
      setCurrentMana_clamps [where cards = "st_cards exampleState" and cardId = "js ''c1''"
        and crd = exampleCard and mf = staleFile
        and today = "js ''2025-01-02''" and v = "-5"]
      setCurrentMana_clamps [where cards = "st_cards exampleState" and cardId = "js ''c1''"
        and crd = exampleCard and mf = staleFile
        and today = "js ''2025-01-02''" and v = "39 / 10"]
    by auto
qed

text \<open>
  C1, evaluated on the code. A card with base mana 5 has the entry
  \<open>(2025-01-01, currentMana = 2)\<close>; the first \<open>depleteMana\<close> of 2025-01-02 returns 1 and
  stores \<open>(2025-01-02, 1)\<close>, although \<open>rechargeManaIfNeeded\<close> on the same file recharges
  to 5: the decrement is taken from the entry parsed before the recharge.
\<close>

theorem depleteMana_uses_entry_read_before_recharge:
  "depleteMana (st_cards exampleState) (js ''2025-01-02'') staleFile (js ''c1'')
     = (1, [js ''c1'' \<mapsto> \<lparr>lastRechargeDate = js ''2025-01-02'', currentMana = 1\<rparr>])
   \<and> rechargeManaIfNeeded (st_cards exampleState) (js ''2025-01-02'') staleFile (js ''c1'') None
     = (5, [js ''c1'' \<mapsto> \<lparr>lastRechargeDate = js ''2025-01-02'', currentMana = 5\<rparr>])"
  by (simp add: depleteMana_found rechargeManaIfNeeded_def exampleState_def staleFile_def
        exampleCard_def or_num_def or_str_def writeFile_def js_def)
section \<open>Properties of the storage adapter\<close>

lemma map_of_update_same: "map_of (AList.update k v al) k = Some v"
  by (simp add: AList.update_conv')

lemma map_of_update_other: "k' \<noteq> k \<Longrightarrow> map_of (AList.update k v al) k' = map_of al k'"
  by (simp add: AList.update_conv')

lemma mode_update [simp]:
  "getDatabaseMode (st\<lparr>st_manaFile := mf\<rparr>) = getDatabaseMode st"
  "getDatabaseMode (st\<lparr>pg_users := us\<rparr>) = getDatabaseMode st"
  "getDatabaseMode (st\<lparr>st_users := us\<rparr>) = getDatabaseMode st"
  "getDatabaseMode (st\<lparr>pg_cards := cs\<rparr>) = getDatabaseMode st"
  "getDatabaseMode (st\<lparr>st_cards := cs\<rparr>) = getDatabaseMode st"
  "getDatabaseMode (st\<lparr>pg_sets := ss\<rparr>) = getDatabaseMode st"
  "getDatabaseMode (st\<lparr>st_sets := ss'\<rparr>) = getDatabaseMode st"
  by (simp_all add: getDatabaseMode_def getPrismaClient_def)

lemma getUser_manaFile [simp]: "getUser (st\<lparr>st_manaFile := mf\<rparr>) userId = getUser st userId"
  by (simp add: getUser_def)

lemma updateUser_found:
  assumes "getUser st userId = Some user"
  shows "\<exists>st'. updateUser st userId updates = Inr st'
        \<and> getUser st' userId = Some (updates user)
        \<and> (\<forall>other. other \<noteq> userId \<longrightarrow> getUser st' other = getUser st other)
        \<and> st_manaFile st' = st_manaFile st
        \<and> st_cards st' = st_cards st
        \<and> getDatabaseMode st' = getDatabaseMode st
        \<and> getCard st' = getCard st
        \<and> getAllSets st' = getAllSets st"
proof (cases "getDatabaseMode st = Prisma")
  case True
  let ?st' = "st\<lparr>pg_users := AList.update userId (updates user) (pg_users st)\<rparr>"
  have row: "map_of (pg_users st) userId = Some user"
    using assms True by (simp add: getUser_def)
  have upd: "updateUser st userId updates = Inr ?st'"
    using True row by (simp add: updateUser_def)
  have "getUser ?st' userId = Some (updates user)"
    "\<forall>other. other \<noteq> userId \<longrightarrow> getUser ?st' other = getUser st other"
    "getCard ?st' = getCard st" "getAllSets ?st' = getAllSets st"
    using True
    by (simp_all add: getUser_def getCard_def getAllSets_def map_of_update_same
          map_of_update_other fun_eq_iff)
  with upd show ?thesis
    by simp
next
  case False
  let ?st' = "st\<lparr>st_users := AList.update userId (updates user) (st_users st)\<rparr>"
  have row: "map_of (st_users st) userId = Some user"
    using assms False by (simp add: getUser_def)
  have upd: "updateUser st userId updates = Inr ?st'"
    using False row by (simp add: updateUser_def)
  have "getUser ?st' userId = Some (updates user)"
    "\<forall>other. other \<noteq> userId \<longrightarrow> getUser ?st' other = getUser st other"
    "getCard ?st' = getCard st" "getAllSets ?st' = getAllSets st"
    using False
    by (simp_all add: getUser_def getCard_def getAllSets_def map_of_update_same
          map_of_update_other fun_eq_iff)
  with upd show ?thesis
    by simp
qed

lemma exampleMode: "getDatabaseMode exampleState = Json"
  by (simp add: getDatabaseMode_def getPrismaClient_def exampleState_def)

lemma prismaMode: "getDatabaseMode prismaState = Prisma"
  by (simp add: getDatabaseMode_def getPrismaClient_def prismaState_def js_def)

lemma exampleBase: "baseManaWithBonus exampleCard exampleUser (getAllSets exampleState) = 7"
  by (simp add: getAllSets_def exampleMode)
     (simp add: baseManaWithBonus_def exampleCard_def exampleUser_def exampleState_def
        exampleSet_def or_num_def js_def)

lemma exampleRequest_user: "requestUserId exampleRequest = Some (js ''u1'')"
  by (simp add: requestUserId_def exampleRequest_def js_def)


section \<open>Properties of the mana routes\<close>

text \<open>
  The reload route for a user who owns the card: without a token the request is rejected
  and nothing changes; with \<open>t \<ge> 1\<close> tokens the answer carries what \<open>setCurrentMana\<close>
  returned for the catalog of \<open>getDatabase()\<close>, the mana file is the one it left, and
  the user's tokens become \<open>t - 1\<close>.
\<close>

lemma reloadHandler_redeems:
  assumes "requestUserId req = Some userId" and "getUser st userId = Some user"
    and "getCard st cardId = Some crd" and "cardId \<in> set (collectionCardIds user)"
    and "manaReloadTokens user = Some t" and "1 \<le> t"
  shows "\<exists>st'. reloadHandler today st req cardId =
             (ManaApplied
                (fst (setCurrentMana (st_cards st) today (st_manaFile st) cardId
                        (baseManaWithBonus crd user (getAllSets st))))
                (baseManaWithBonus crd user (getAllSets st)) (t - 1), st')
           \<and> st_manaFile st' =
               snd (setCurrentMana (st_cards st) today (st_manaFile st) cardId
                      (baseManaWithBonus crd user (getAllSets st)))
           \<and> getUser st' userId = Some (user\<lparr>manaReloadTokens := Some (t - 1)\<rparr>)"
proof -
  let ?base = "baseManaWithBonus crd user (getAllSets st)"
  let ?r = "setCurrentMana (st_cards st) today (st_manaFile st) cardId ?base"
  let ?st1 = "st\<lparr>st_manaFile := snd ?r\<rparr>"
  have u1: "getUser ?st1 userId = Some user"
    using assms(2) by simp
  obtain st' where upd: "updateUser ?st1 userId (\<lambda>u. u\<lparr>manaReloadTokens := Some (t - 1)\<rparr>) = Inr st'"
    and user': "getUser st' userId = Some (user\<lparr>manaReloadTokens := Some (t - 1)\<rparr>)"
    and file': "st_manaFile st' = st_manaFile ?st1"
    using updateUser_found [OF u1, of "\<lambda>u. u\<lparr>manaReloadTokens := Some (t - 1)\<rparr>"] by blast
  have tok: "\<not> noTokens (manaReloadTokens user)"
    "max 0 (tokensOrZero (manaReloadTokens user) - 1) = t - 1"
    using assms(5,6) by (simp_all add: noTokens_def tokensOrZero_def or_num_def)
  have "reloadHandler today st req cardId = (ManaApplied (fst ?r) ?base (t - 1), st')"
    using assms(1-4) tok upd
    by (simp add: reloadHandler_def Let_def split_beta)
  then show ?thesis
    using user' file' by simp
qed

lemma reloadHandler_rejects:
  assumes "requestUserId req = Some userId" and "getUser st userId = Some user"
    and "getCard st cardId = Some crd" and "cardId \<in> set (collectionCardIds user)"
    and "noTokens (manaReloadTokens user)"
  shows "reloadHandler today st req cardId = (BadRequest (js ''No mana reloads available''), st)"
  using assms by (simp add: reloadHandler_def)

text \<open>
  C7, evaluated on the code. A process in Prisma mode holds the user (1 reload token, two
  owned sets of the card's character) and the card (catalog mana 5, so base mana 7) in
  PostgreSQL; the card was created through the adapter and is not in \<open>cards.json\<close>.
  The reload route finds user and card through the adapter, calls
  \<open>setCurrentMana(cardId, 7)\<close>, which looks the card up in \<open>getDatabase().cards\<close>, does
  not find it, returns 0 and writes nothing, and then takes the token: the answer is
  \<open>currentMana: 0, baseMana: 7, tokensRemaining: 0\<close>, no entry exists afterwards, and
  the mana route then reads 0. The same request in JSON mode gives \<open>currentMana: 7\<close> and
  stores the entry, as the claim says.
\<close>

theorem reload_in_prisma_mode_takes_token_without_reload:
  "getDatabaseMode prismaState = Prisma
   \<and> getUser prismaState (js ''u1'') = Some exampleUser
   \<and> getCard prismaState (js ''c1'') = Some exampleCard
   \<and> manaReloadTokens exampleUser = Some 1
   \<and> baseManaWithBonus exampleCard exampleUser (getAllSets prismaState) = 7
   \<and> reloadHandler (js ''2025-01-02'') prismaState exampleRequest (js ''c1'')
       = (ManaApplied 0 7 0,
          prismaState\<lparr>pg_users := [(js ''u1'', exampleUser\<lparr>manaReloadTokens := Some 0\<rparr>)]\<rparr>)
   \<and> st_manaFile (snd (reloadHandler (js ''2025-01-02'') prismaState exampleRequest (js ''c1'')))
        (js ''c1'') = None
   \<and> fst (manaHandler (js ''2025-01-02'')
            (snd (reloadHandler (js ''2025-01-02'') prismaState exampleRequest (js ''c1'')))
            exampleRequest (js ''c1''))
       = ManaRead 0 7
   \<and> reloadHandler (js ''2025-01-02'') exampleState exampleRequest (js ''c1'')
       = (ManaApplied 7 7 0,
          exampleState\<lparr>st_users := [(js ''u1'', exampleUser\<lparr>manaReloadTokens := Some 0\<rparr>)],
                       st_manaFile := [js ''c1'' \<mapsto>
                          \<lparr>lastRechargeDate = js ''2025-01-02'', currentMana = 7\<rparr>]\<rparr>)
   \<and> reloadHandler (js ''2025-01-02'')
        (snd (reloadHandler (js ''2025-01-02'') exampleState exampleRequest (js ''c1'')))
        exampleRequest (js ''c1'')
       = (BadRequest (js ''No mana reloads available''),
          snd (reloadHandler (js ''2025-01-02'') exampleState exampleRequest (js ''c1'')))"
proof -
  let ?today = "js ''2025-01-02''"
  let ?js1 = "exampleState\<lparr>st_users := [(js ''u1'', exampleUser\<lparr>manaReloadTokens := Some 0\<rparr>)],
                          st_manaFile := [js ''c1'' \<mapsto>
                            \<lparr>lastRechargeDate = js ''2025-01-02'', currentMana = 7\<rparr>]\<rparr>"
  let ?st1 = "prismaState\<lparr>pg_users := [(js ''u1'', exampleUser\<lparr>manaReloadTokens := Some 0\<rparr>)]\<rparr>"
  have user: "getUser prismaState (js ''u1'') = Some exampleUser"
    by (simp add: getUser_def prismaMode) (simp add: prismaState_def)
  have crd: "getCard prismaState (js ''c1'') = Some exampleCard"
    by (simp add: getCard_def prismaMode) (simp add: prismaState_def)
  have tokens: "manaReloadTokens exampleUser = Some 1"
    by (simp add: exampleUser_def)
  have base: "baseManaWithBonus exampleCard exampleUser (getAllSets prismaState) = 7"
    by (simp add: getAllSets_def prismaMode)
       (simp add: baseManaWithBonus_def exampleCard_def exampleUser_def prismaState_def
          exampleSet_def or_num_def js_def)
  have owned: "js ''c1'' \<in> set (collectionCardIds exampleUser)"
    by (simp add: exampleUser_def)
  have nt: "\<not> noTokens (manaReloadTokens exampleUser)"
    "max 0 (tokensOrZero (manaReloadTokens exampleUser) - 1) = 0"
    by (simp_all add: exampleUser_def noTokens_def tokensOrZero_def or_num_def)
  have absent: "st_cards prismaState (js ''c1'') = None"
    by (simp add: prismaState_def)
  have set: "setCurrentMana (st_cards prismaState) ?today (st_manaFile prismaState) (js ''c1'') 7
               = (0, st_manaFile prismaState)"
    using absent by (simp add: setCurrentMana_def)
  have upd: "updateUser prismaState (js ''u1'') (\<lambda>u. u\<lparr>manaReloadTokens := Some 0\<rparr>) = Inr ?st1"
    by (simp add: updateUser_def prismaMode) (simp add: prismaState_def)
  have first: "reloadHandler ?today prismaState exampleRequest (js ''c1'')
                 = (ManaApplied 0 7 0, ?st1)"
    using user crd owned nt base set upd
    by (simp add: reloadHandler_def exampleRequest_user Let_def)
  have file1: "st_manaFile ?st1 (js ''c1'') = None"
    by (simp add: prismaState_def)
  have user1: "getUser ?st1 (js ''u1'') = Some (exampleUser\<lparr>manaReloadTokens := Some 0\<rparr>)"
    by (simp add: getUser_def prismaMode)
  have crd1: "getCard ?st1 (js ''c1'') = Some exampleCard"
    by (simp add: getCard_def prismaMode) (simp add: prismaState_def)
  have base1: "baseManaWithBonus exampleCard (exampleUser\<lparr>manaReloadTokens := Some 0\<rparr>)
                 (getAllSets ?st1) = 7"
    by (simp add: getAllSets_def prismaMode)
       (simp add: baseManaWithBonus_def exampleCard_def exampleUser_def prismaState_def
          exampleSet_def or_num_def js_def)
  have get1: "getCurrentMana (st_cards ?st1) ?today (st_manaFile ?st1) (js ''c1'') (Some 7)
                = (0, st_manaFile ?st1)"
    using absent by (simp add: getCurrentMana_def rechargeManaIfNeeded_def)
  have read: "fst (manaHandler ?today ?st1 exampleRequest (js ''c1'')) = ManaRead 0 7"
    using user1 crd1 owned base1 get1
    by (simp add: manaHandler_def exampleRequest_user Let_def)
  have juser: "getUser exampleState (js ''u1'') = Some exampleUser"
    by (simp add: getUser_def exampleMode) (simp add: exampleState_def)
  have jcrd: "getCard exampleState (js ''c1'') = Some exampleCard"
    by (simp add: getCard_def exampleMode) (simp add: exampleState_def)
  have jcat: "st_cards exampleState (js ''c1'') = Some exampleCard"
    by (simp add: exampleState_def)
  have jset: "setCurrentMana (st_cards exampleState) ?today (st_manaFile exampleState) (js ''c1'') 7
                = (7, [js ''c1'' \<mapsto> \<lparr>lastRechargeDate = ?today, currentMana = 7\<rparr>])"
    unfolding setCurrentMana_found [where cards = "st_cards exampleState"
        and cardId = "js ''c1''", OF jcat]
    by (simp add: exampleState_def)
  have jupd: "updateUser
                (exampleState\<lparr>st_manaFile := [js ''c1'' \<mapsto>
                    \<lparr>lastRechargeDate = ?today, currentMana = 7\<rparr>]\<rparr>)
                (js ''u1'') (\<lambda>u. u\<lparr>manaReloadTokens := Some 0\<rparr>)
              = Inr (exampleState\<lparr>st_users :=
                        [(js ''u1'', exampleUser\<lparr>manaReloadTokens := Some 0\<rparr>)],
                      st_manaFile := [js ''c1'' \<mapsto>
                        \<lparr>lastRechargeDate = ?today, currentMana = 7\<rparr>]\<rparr>)"
    by (simp add: updateUser_def exampleMode) (simp add: exampleState_def)
  have json: "reloadHandler ?today exampleState exampleRequest (js ''c1'')
                = (ManaApplied 7 7 0,
                   exampleState\<lparr>st_users :=
                        [(js ''u1'', exampleUser\<lparr>manaReloadTokens := Some 0\<rparr>)],
                      st_manaFile := [js ''c1'' \<mapsto>
                        \<lparr>lastRechargeDate = ?today, currentMana = 7\<rparr>]\<rparr>)"
    using juser jcrd owned nt exampleBase jset jupd
    by (simp add: reloadHandler_def exampleRequest_user Let_def)
  have juser1: "getUser ?js1 (js ''u1'') = Some (exampleUser\<lparr>manaReloadTokens := Some 0\<rparr>)"
    by (simp add: getUser_def exampleMode)
  have jcrd1: "getCard ?js1 (js ''c1'') = Some exampleCard"
    by (simp add: getCard_def exampleMode) (simp add: exampleState_def)
  have again: "reloadHandler ?today ?js1 exampleRequest (js ''c1'')
                 = (BadRequest (js ''No mana reloads available''), ?js1)"
    by (rule reloadHandler_rejects [OF exampleRequest_user juser1 jcrd1])
       (simp_all add: exampleUser_def noTokens_def)
  show ?thesis
    unfolding first json snd_conv
    using prismaMode user crd tokens base file1 read again by simp
qed

section \<open>Properties of the daily grant\<close>





section \<open>The bound on current mana\<close>























section \<open>Properties of the cipher\<close>

lemma unat_hexDigit:
  assumes "n < 16"
  shows "unat (hexDigit n) = (if n < 10 then 48 + n else 87 + n)"
proof -
  have "unat (of_nat (48 + n) :: 16 word) = 48 + n"
    using assms by (simp only: unat_of_nat) simp
  moreover have "unat (of_nat (87 + n) :: 16 word) = 87 + n"
    using assms by (simp only: unat_of_nat) simp
  ultimately show ?thesis
    by (cases "n < 10") (simp_all only: hexDigit_def if_True if_False)
qed

lemma hexValue_hexDigit: "n < 16 \<Longrightarrow> hexValue (hexDigit n) = Some n"
  by (simp add: hexValue_def Let_def unat_hexDigit)

lemma colon_not_hexDigit: "n < 16 \<Longrightarrow> colon \<noteq> hexDigit n"
proof
  assume "n < 16" and "colon = hexDigit n"
  then have "unat colon = unat (hexDigit n)" by simp
  with \<open>n < 16\<close> show False
    by (simp add: unat_hexDigit colon_def split: if_splits)
qed

lemma byte_nibbles: "unat (b :: 8 word) div 16 < 16" "unat b mod 16 < 16"
proof -
  have "unat b < 2 ^ LENGTH(8)" by (rule unsigned_less)
  then show "unat b div 16 < 16" by simp
  show "unat b mod 16 < 16" by simp
qed

lemma colon_notin_hexEncode: "colon \<notin> set (hexEncode bs)"
  by (induction bs) (simp_all add: hexEncode_def colon_not_hexDigit byte_nibbles)

lemma hexDecode_hexEncode: "hexDecode (hexEncode bs) = bs"
proof (induction bs)
  case Nil
  show ?case by (simp add: hexEncode_def)
next
  case (Cons b bs)
  have "(of_nat (16 * (unat b div 16) + unat b mod 16) :: 8 word) = b"
    by simp
  with Cons show ?case
    by (simp add: hexEncode_def hexValue_hexDigit byte_nibbles)
qed

lemma length_hexEncode: "length (hexEncode bs) = 2 * length bs"
  by (induction bs) (simp_all add: hexEncode_def)

lemma split_on_notin: "sep \<notin> set a \<Longrightarrow> split_on sep a = [a]"
  by (induction a) auto

lemma split_on_once:
  "sep \<notin> set a \<Longrightarrow> sep \<notin> set b \<Longrightarrow> split_on sep (a @ sep # b) = [a, b]"
  by (induction a) (auto simp: split_on_notin)

lemma decryptMessage_well_formed:
  "length iv = 16 \<Longrightarrow>
   decryptMessage rt cfg (hexEncode iv @ colon # hexEncode c) =
     (case aes256cbc_decrypt rt (getKey rt (ENCRYPTION_KEY cfg)) iv c of
        Some decrypted \<Rightarrow> Inr (utf8_decode rt decrypted)
      | None \<Rightarrow>
          (case env_ENCRYPTION_KEY cfg of
             None \<Rightarrow> Inl DecryptFailed
           | Some envValue \<Rightarrow>
               if envValue \<noteq> [] \<and> envValue \<noteq> ENCRYPTION_KEY cfg
               then (case aes256cbc_decrypt rt (getKey rt envValue) iv c of
                       Some decrypted \<Rightarrow> Inr (utf8_decode rt decrypted)
                     | None \<Rightarrow> Inl DecryptFailed)
               else Inl DecryptFailed))"
  by (simp add: decryptMessage_def split_on_once colon_notin_hexEncode hexDecode_hexEncode
        Let_def length_hexEncode split: option.splits)

lemma utf8_encode_lone_surrogate: "utf8_encode [0xD800] = utf8_encode [0xFFFD]"
  by (simp add: encodeUnit_def isHighSurrogate_def isLowSurrogate_def encodeCodePoint_def)

lemma lone_surrogate_same_ciphertext:
  "encryptMessageWithIV rt cfg [0xD800] iv = encryptMessageWithIV rt cfg [0xFFFD] iv"
  by (simp only: encryptMessageWithIV_def utf8_encode_lone_surrogate)

lemma exampleCipher_inverse:
  "length key = 32 \<Longrightarrow> length iv = 16 \<Longrightarrow>
   \<exists>c. exampleEncrypt key iv p = Some c \<and> exampleDecrypt key iv c = Some p"
  by (simp add: exampleEncrypt_def exampleDecrypt_def comp_def)

lemma length_example_getKey: "length (getKey exampleRuntime k) = 32"
  by (simp add: getKey_def exampleRuntime_def exampleHash_def Let_def min_def)

lemma exampleRuntime_inverse:
  "length iv = 16 \<Longrightarrow>
   \<forall>p. \<exists>c. aes256cbc_encrypt exampleRuntime (getKey exampleRuntime k) iv p = Some c
          \<and> aes256cbc_decrypt exampleRuntime (getKey exampleRuntime k) iv c = Some p"
  using exampleCipher_inverse [OF length_example_getKey]
  by (simp add: exampleRuntime_def)

lemma oldKey_bytes:
  "getKey exampleRuntime (js ''old-key'') = [111, 108, 100, 45, 107, 101, 121] @ replicate 25 0"
  by (simp add: getKey_def exampleRuntime_def exampleHash_def js_def hexValue_def Let_def
        encodeUnit_def isHighSurrogate_def isLowSurrogate_def encodeCodePoint_def)

lemma newKey_bytes:
  "getKey exampleRuntime (js ''new-key'') = [110, 101, 119, 45, 107, 101, 121] @ replicate 25 0"
  by (simp add: getKey_def exampleRuntime_def exampleHash_def js_def hexValue_def Let_def
        encodeUnit_def isHighSurrogate_def isLowSurrogate_def encodeCodePoint_def)


lemma length_exampleIV: "length exampleIV = 16"
  by (simp add: exampleIV_def)

text \<open>
  The example decoder inverts the encoder exactly on the well-formed strings
  (\<open>utf8_round_trip_iff\<close>): a surrogate pair comes back from its four bytes, any other
  code unit that is not a surrogate from its one to three bytes, and an unpaired
  surrogate comes back as U+FFFD.
\<close>

lemma unat_byte: "k < 256 \<Longrightarrow> unat (of_nat k :: 8 word) = k"
  by (simp add: unat_of_nat)

lemma decode1:
  "unat b < 0x80 \<Longrightarrow> exampleDecode (b # bs) = of_nat (unat b) # exampleDecode bs"
  by (simp add: Let_def)

lemma decode2:
  "0xC2 \<le> unat b1 \<Longrightarrow> unat b1 \<le> 0xDF \<Longrightarrow> 0x80 \<le> unat b2 \<Longrightarrow> unat b2 \<le> 0xBF \<Longrightarrow>
   exampleDecode (b1 # b2 # bs)
     = of_nat ((unat b1 - 0xC0) * 64 + (unat b2 - 0x80)) # exampleDecode bs"
  by (simp add: isContinuation_def word_le_nat_alt Let_def)

lemma decode3:
  "0xE0 \<le> unat b1 \<Longrightarrow> unat b1 \<le> 0xEF \<Longrightarrow> 0x80 \<le> unat b2 \<Longrightarrow> unat b2 \<le> 0xBF \<Longrightarrow>
   0x80 \<le> unat b3 \<Longrightarrow> unat b3 \<le> 0xBF \<Longrightarrow>
   0x800 \<le> (unat b1 - 0xE0) * 4096 + (unat b2 - 0x80) * 64 + (unat b3 - 0x80) \<Longrightarrow>
   \<not> (0xD800 \<le> (unat b1 - 0xE0) * 4096 + (unat b2 - 0x80) * 64 + (unat b3 - 0x80)
      \<and> (unat b1 - 0xE0) * 4096 + (unat b2 - 0x80) * 64 + (unat b3 - 0x80) \<le> 0xDFFF) \<Longrightarrow>
   exampleDecode (b1 # b2 # b3 # bs)
     = of_nat ((unat b1 - 0xE0) * 4096 + (unat b2 - 0x80) * 64 + (unat b3 - 0x80))
       # exampleDecode bs"
  by (simp add: isContinuation_def word_le_nat_alt Let_def)

lemma decode4:
  "0xF0 \<le> unat b1 \<Longrightarrow> unat b1 \<le> 0xF4 \<Longrightarrow> 0x80 \<le> unat b2 \<Longrightarrow> unat b2 \<le> 0xBF \<Longrightarrow>
   0x80 \<le> unat b3 \<Longrightarrow> unat b3 \<le> 0xBF \<Longrightarrow> 0x80 \<le> unat b4 \<Longrightarrow> unat b4 \<le> 0xBF \<Longrightarrow>
   cp = (unat b1 - 0xF0) * 262144 + (unat b2 - 0x80) * 4096 + (unat b3 - 0x80) * 64
        + (unat b4 - 0x80) \<Longrightarrow>
   0x10000 \<le> cp \<Longrightarrow> cp \<le> 0x10FFFF \<Longrightarrow>
   exampleDecode (b1 # b2 # b3 # b4 # bs)
     = of_nat (0xD800 + (cp - 0x10000) div 0x400)
       # of_nat (0xDC00 + (cp - 0x10000) mod 0x400) # exampleDecode bs"
  by (simp add: isContinuation_def word_le_nat_alt Let_def)


lemma decode_encodeCodePoint_1:
  assumes "n < 0x80"
  shows "exampleDecode (encodeCodePoint n @ bs) = of_nat n # exampleDecode bs"
proof -
  define b :: "8 word" where "b = of_nat n"
  have u: "unat b = n"
    unfolding b_def using assms by (simp add: unat_byte)
  have enc: "encodeCodePoint n = [b]"
    unfolding b_def encodeCodePoint_def using assms by simp
  have "exampleDecode (b # bs) = of_nat (unat b) # exampleDecode bs"
    using assms u by (intro decode1) simp
  then show ?thesis
    by (simp add: enc u)
qed

lemma decode_encodeCodePoint_2:
  assumes "0x80 \<le> n" and "n < 0x800"
  shows "exampleDecode (encodeCodePoint n @ bs) = of_nat n # exampleDecode bs"
proof -
  define b1 :: "8 word" where "b1 = of_nat (0xC0 + n div 64)"
  define b2 :: "8 word" where "b2 = of_nat (0x80 + n mod 64)"
  have d: "2 \<le> n div 64" "n div 64 < 32"
    using assms by simp_all
  have u1: "unat b1 = 0xC0 + n div 64"
    unfolding b1_def using d by (intro unat_byte) simp
  have u2: "unat b2 = 0x80 + n mod 64"
    unfolding b2_def by (intro unat_byte) simp
  have enc: "encodeCodePoint n = [b1, b2]"
    unfolding b1_def b2_def encodeCodePoint_def using assms by simp
  have "exampleDecode (b1 # b2 # bs)
          = of_nat ((unat b1 - 0xC0) * 64 + (unat b2 - 0x80)) # exampleDecode bs"
    using d by (intro decode2) (simp_all add: u1 u2)
  moreover have "(unat b1 - 0xC0) * 64 + (unat b2 - 0x80) = n"
    by (simp add: u1 u2)
  ultimately show ?thesis
    by (simp add: enc)
qed

lemma split_three: "(n :: nat) div 4096 * 4096 + n div 64 mod 64 * 64 + n mod 64 = n"
proof -
  define m where "m = n div 64"
  have a: "n div 4096 = m div 64"
    unfolding m_def by (simp add: div_mult2_eq)
  have "m * 64 = (m div 64 * 64 + m mod 64) * 64"
    by simp
  also have "\<dots> = m div 64 * 4096 + m mod 64 * 64"
    by (simp only: add_mult_distrib mult.assoc)
  finally have c: "m div 64 * 4096 + m mod 64 * 64 = m * 64"
    by simp
  have "m * 64 + n mod 64 = n"
    unfolding m_def by simp
  with c have "m div 64 * 4096 + m mod 64 * 64 + n mod 64 = n"
    by simp
  then show ?thesis
    unfolding a m_def .
qed

lemma decode_encodeCodePoint_3:
  assumes "0x800 \<le> n" and "n < 0x10000" and "\<not> (0xD800 \<le> n \<and> n \<le> 0xDFFF)"
  shows "exampleDecode (encodeCodePoint n @ bs) = of_nat n # exampleDecode bs"
proof -
  define b1 :: "8 word" where "b1 = of_nat (0xE0 + n div 4096)"
  define b2 :: "8 word" where "b2 = of_nat (0x80 + n div 64 mod 64)"
  define b3 :: "8 word" where "b3 = of_nat (0x80 + n mod 64)"
  have d: "n div 4096 < 16"
    using assms by simp
  have u1: "unat b1 = 0xE0 + n div 4096"
    unfolding b1_def using d by (intro unat_byte) simp
  have u2: "unat b2 = 0x80 + n div 64 mod 64"
    unfolding b2_def by (intro unat_byte) simp
  have u3: "unat b3 = 0x80 + n mod 64"
    unfolding b3_def by (intro unat_byte) simp
  have enc: "encodeCodePoint n = [b1, b2, b3]"
    unfolding b1_def b2_def b3_def encodeCodePoint_def using assms by simp
  have cp: "(unat b1 - 0xE0) * 4096 + (unat b2 - 0x80) * 64 + (unat b3 - 0x80) = n"
    using split_three [of n] by (simp add: u1 u2 u3)
  have "exampleDecode (b1 # b2 # b3 # bs)
          = of_nat ((unat b1 - 0xE0) * 4096 + (unat b2 - 0x80) * 64 + (unat b3 - 0x80))
            # exampleDecode bs"
  proof (intro decode3)
    show "0xE0 \<le> unat b1" "unat b1 \<le> 0xEF" using d by (simp_all add: u1)
    show "0x80 \<le> unat b2" "unat b2 \<le> 0xBF" by (simp_all add: u2)
    show "0x80 \<le> unat b3" "unat b3 \<le> 0xBF" by (simp_all add: u3)
    show "0x800 \<le> (unat b1 - 0xE0) * 4096 + (unat b2 - 0x80) * 64 + (unat b3 - 0x80)"
      unfolding cp using assms by simp
    show "\<not> (0xD800 \<le> (unat b1 - 0xE0) * 4096 + (unat b2 - 0x80) * 64 + (unat b3 - 0x80)
            \<and> (unat b1 - 0xE0) * 4096 + (unat b2 - 0x80) * 64 + (unat b3 - 0x80) \<le> 0xDFFF)"
      unfolding cp using assms by simp
  qed
  then show ?thesis
    by (simp only: enc cp append_Cons append_Nil)
qed

lemma decode_encodeCodePoint_bmp:
  assumes "n < 0x10000" and "\<not> (0xD800 \<le> n \<and> n \<le> 0xDFFF)"
  shows "exampleDecode (encodeCodePoint n @ bs) = of_nat n # exampleDecode bs"
proof -
  consider "n < 0x80" | "0x80 \<le> n" "n < 0x800" | "0x800 \<le> n"
    by linarith
  then show ?thesis
  proof cases
    case 1
    then show ?thesis by (rule decode_encodeCodePoint_1)
  next
    case 2
    then show ?thesis by (rule decode_encodeCodePoint_2)
  next
    case 3
    then show ?thesis using assms by (intro decode_encodeCodePoint_3)
  qed
qed


lemma split_four:
  "(n :: nat) div 262144 * 262144 + n div 4096 mod 64 * 4096 + n div 64 mod 64 * 64 + n mod 64 = n"
proof -
  define m where "m = n div 4096"
  have a: "n div 262144 = m div 64"
    unfolding m_def by (simp add: div_mult2_eq)
  have "m * 4096 = (m div 64 * 64 + m mod 64) * 4096"
    by simp
  also have "\<dots> = m div 64 * 262144 + m mod 64 * 4096"
    by (simp only: add_mult_distrib mult.assoc)
  finally have c: "m div 64 * 262144 + m mod 64 * 4096 = n div 4096 * 4096"
    unfolding m_def by simp
  show ?thesis
    unfolding a c [unfolded m_def] m_def by (rule split_three)
qed

lemma decode_encodeCodePoint_4:
  assumes "0x10000 \<le> n" and "n \<le> 0x10FFFF"
  shows "exampleDecode (encodeCodePoint n @ bs)
           = of_nat (0xD800 + (n - 0x10000) div 0x400)
             # of_nat (0xDC00 + (n - 0x10000) mod 0x400) # exampleDecode bs"
proof -
  define b1 :: "8 word" where "b1 = of_nat (0xF0 + n div 262144)"
  define b2 :: "8 word" where "b2 = of_nat (0x80 + n div 4096 mod 64)"
  define b3 :: "8 word" where "b3 = of_nat (0x80 + n div 64 mod 64)"
  define b4 :: "8 word" where "b4 = of_nat (0x80 + n mod 64)"
  have d: "n div 262144 \<le> 4"
    using assms by simp
  have u1: "unat b1 = 0xF0 + n div 262144"
    unfolding b1_def using d by (intro unat_byte) simp
  have u2: "unat b2 = 0x80 + n div 4096 mod 64"
    unfolding b2_def by (intro unat_byte) simp
  have u3: "unat b3 = 0x80 + n div 64 mod 64"
    unfolding b3_def by (intro unat_byte) simp
  have u4: "unat b4 = 0x80 + n mod 64"
    unfolding b4_def by (intro unat_byte) simp
  have enc: "encodeCodePoint n = [b1, b2, b3, b4]"
    unfolding b1_def b2_def b3_def b4_def encodeCodePoint_def using assms by simp
  have cp: "n = (unat b1 - 0xF0) * 262144 + (unat b2 - 0x80) * 4096 + (unat b3 - 0x80) * 64
              + (unat b4 - 0x80)"
    using split_four [of n] by (simp add: u1 u2 u3 u4)
  have "exampleDecode (b1 # b2 # b3 # b4 # bs)
          = of_nat (0xD800 + (n - 0x10000) div 0x400)
            # of_nat (0xDC00 + (n - 0x10000) mod 0x400) # exampleDecode bs"
  proof (intro decode4)
    show "0xF0 \<le> unat b1" "unat b1 \<le> 0xF4" using d by (simp_all add: u1)
    show "0x80 \<le> unat b2" "unat b2 \<le> 0xBF" by (simp_all add: u2)
    show "0x80 \<le> unat b3" "unat b3 \<le> 0xBF" by (simp_all add: u3)
    show "0x80 \<le> unat b4" "unat b4 \<le> 0xBF" by (simp_all add: u4)
    show "n = (unat b1 - 0xF0) * 262144 + (unat b2 - 0x80) * 4096 + (unat b3 - 0x80) * 64
              + (unat b4 - 0x80)"
      by (rule cp)
    show "0x10000 \<le> n" "n \<le> 0x10FFFF" using assms by simp_all
  qed
  then show ?thesis
    by (simp only: enc append_Cons append_Nil)
qed

lemma surrogate_range:
  "isHighSurrogate c \<longleftrightarrow> 0xD800 \<le> unat c \<and> unat c \<le> 0xDBFF"
  "isLowSurrogate c \<longleftrightarrow> 0xDC00 \<le> unat c \<and> unat c \<le> 0xDFFF"
  by (simp_all add: isHighSurrogate_def isLowSurrogate_def word_le_nat_alt)

lemma decode_encodeUnit:
  assumes "\<not> isHighSurrogate c" and "\<not> isLowSurrogate c"
  shows "exampleDecode (encodeUnit c @ bs) = c # exampleDecode bs"
proof -
  have r: "unat c < 0x10000"
    using unsigned_less [of c] by simp
  have s: "\<not> (0xD800 \<le> unat c \<and> unat c \<le> 0xDFFF)"
    using assms by (auto simp: surrogate_range)
  have "exampleDecode (encodeCodePoint (unat c) @ bs) = of_nat (unat c) # exampleDecode bs"
    using r s by (rule decode_encodeCodePoint_bmp)
  then show ?thesis
    using assms by (simp add: encodeUnit_def)
qed

lemma decode_surrogate_pair:
  assumes "isHighSurrogate c" and "isLowSurrogate d"
  shows "exampleDecode
           (encodeCodePoint (0x10000 + (unat c - 0xD800) * 0x400 + (unat d - 0xDC00)) @ bs)
           = c # d # exampleDecode bs"
proof -
  define h where "h = unat c - 0xD800"
  define l where "l = unat d - 0xDC00"
  have hr: "h < 0x400" "unat c = 0xD800 + h"
    using assms(1) by (auto simp: surrogate_range h_def)
  have lr: "l < 0x400" "unat d = 0xDC00 + l"
    using assms(2) by (auto simp: surrogate_range l_def)
  have range: "0x10000 \<le> 0x10000 + h * 0x400 + l" "0x10000 + h * 0x400 + l \<le> 0x10FFFF"
    using hr(1) lr(1) by simp_all
  have dv: "(0x10000 + h * 0x400 + l - 0x10000) div 0x400 = h"
    using lr(1) by simp
  have md: "(0x10000 + h * 0x400 + l - 0x10000) mod 0x400 = l"
    using lr(1) by simp
  have "exampleDecode (encodeCodePoint (0x10000 + h * 0x400 + l) @ bs)
          = of_nat (0xD800 + h) # of_nat (0xDC00 + l) # exampleDecode bs"
    using decode_encodeCodePoint_4 [OF range] unfolding dv md .
  moreover have "(of_nat (unat c) :: 16 word) = c" "(of_nat (unat d) :: 16 word) = d"
    by simp_all
  then have "(of_nat (0xD800 + h) :: 16 word) = c" "(of_nat (0xDC00 + l) :: 16 word) = d"
    unfolding hr(2) lr(2) .
  ultimately show ?thesis
    unfolding h_def l_def by simp
qed

lemma exampleDecode_utf8_encode: "wellFormed s \<Longrightarrow> exampleDecode (utf8_encode s) = s"
proof (induction s rule: utf8_encode.induct)
  case 1
  show ?case by simp
next
  case (2 c)
  then show ?case
    using decode_encodeUnit [of c "[]"] by simp
next
  case (3 c d cs)
  show ?case
  proof (cases "isHighSurrogate c")
    case True
    with 3 show ?thesis
      by (simp add: decode_surrogate_pair)
  next
    case False
    with 3 show ?thesis
      by (simp add: decode_encodeUnit)
  qed
qed


lemma decode_replacement:
  "exampleDecode ([0xEF, 0xBF, 0xBD] @ bs) = 0xFFFD # exampleDecode bs"
proof -
  have "encodeCodePoint 0xFFFD = [0xEF, 0xBF, 0xBD]"
    by (simp add: encodeCodePoint_def)
  then show ?thesis
    using decode_encodeCodePoint_3 [of "0xFFFD" bs] by simp
qed

lemma surrogate_not_replacement:
  "isHighSurrogate c \<or> isLowSurrogate c \<Longrightarrow> c \<noteq> 0xFFFD"
  by (auto simp: surrogate_range)

lemma wellFormed_if_round_trip: "exampleDecode (utf8_encode s) = s \<Longrightarrow> wellFormed s"
proof (induction s rule: utf8_encode.induct)
  case 1
  show ?case by simp
next
  case (2 c)
  show ?case
  proof (cases "isHighSurrogate c \<or> isLowSurrogate c")
    case True
    then have "exampleDecode (utf8_encode [c]) = [0xFFFD]"
      using decode_replacement [of "[]"] by (simp add: encodeUnit_def)
    with 2 surrogate_not_replacement [OF True] show ?thesis by simp
  next
    case False
    then show ?thesis by simp
  qed
next
  case (3 c d cs)
  show ?case
  proof (cases "isHighSurrogate c \<and> isLowSurrogate d")
    case True
    then have "exampleDecode (utf8_encode (c # d # cs)) = c # d # exampleDecode (utf8_encode cs)"
      by (simp add: decode_surrogate_pair)
    with 3 True show ?thesis by simp
  next
    case False
    show ?thesis
    proof (cases "isHighSurrogate c \<or> isLowSurrogate c")
      case True
      then have "utf8_encode (c # d # cs) = [0xEF, 0xBF, 0xBD] @ utf8_encode (d # cs)"
        using False by (auto simp: encodeUnit_def)
      then have "exampleDecode (utf8_encode (c # d # cs))
                   = 0xFFFD # exampleDecode (utf8_encode (d # cs))"
        by (simp only: decode_replacement)
      with "3.prems" surrogate_not_replacement [OF True] show ?thesis by simp
    next
      case plain: False
      then have "exampleDecode (utf8_encode (c # d # cs))
                   = c # exampleDecode (utf8_encode (d # cs))"
        using False by (auto simp: decode_encodeUnit)
      with 3 False plain show ?thesis by simp
    qed
  qed
qed

lemma utf8_round_trip_iff: "exampleDecode (utf8_encode s) = s \<longleftrightarrow> wellFormed s"
  using wellFormed_if_round_trip exampleDecode_utf8_encode by blast

lemma exampleRuntime_decoder:
  "\<forall>t. wellFormed t \<longrightarrow> utf8_decode exampleRuntime (utf8_encode t) = t"
  by (simp add: exampleRuntime_def exampleDecode_utf8_encode)

text \<open>
  C6, as amended. For every string \<open>s\<close> and 16-byte IV for which the cipher does not
  throw: \<open>encryptMessageWithIV(s, iv)\<close>, and \<open>encryptMessage(s)\<close> drawing that IV,
  return \<open>ivHex:cipherHex\<close>, where \<open>ivHex\<close> is the 32 hexadecimal digits of the IV,
  \<open>cipherHex\<close> the hexadecimal form of the cipher's output for the key constant, the IV
  and the UTF-8 encoding of \<open>s\<close>, and neither part holds a colon; the output is
  determined by the key constant, \<open>s\<close> and the IV, and does not depend on
  \<open>process.env\<close> at the time of the call. When moreover the cipher decrypts what it
  encrypts, the UTF-8 decoder inverts the encoder on well-formed strings, and \<open>s\<close> has
  no unpaired surrogate, \<open>decryptMessage\<close> of the output returns \<open>s\<close>.
\<close>

theorem encrypt_decrypt_round_trip:
  assumes "length iv = 16"
    and "\<forall>p. \<exists>c. aes256cbc_encrypt rt (getKey rt (ENCRYPTION_KEY cfg)) iv p = Some c"
  shows "\<exists>c. aes256cbc_encrypt rt (getKey rt (ENCRYPTION_KEY cfg)) iv (utf8_encode s) = Some c
            \<and> encryptMessageWithIV rt cfg s iv = Inr (hexEncode iv @ colon # hexEncode c)
            \<and> encryptMessage rt cfg iv s = Inr (hexEncode iv @ colon # hexEncode c)
            \<and> length (hexEncode iv) = 32
            \<and> colon \<notin> set (hexEncode iv) \<and> colon \<notin> set (hexEncode c)
            \<and> encryptMessageWithIV rt (cfg\<lparr>env_ENCRYPTION_KEY := env'\<rparr>) s iv
                = encryptMessageWithIV rt cfg s iv
            \<and> ((\<forall>p c'. aes256cbc_encrypt rt (getKey rt (ENCRYPTION_KEY cfg)) iv p = Some c'
                     \<longrightarrow> aes256cbc_decrypt rt (getKey rt (ENCRYPTION_KEY cfg)) iv c' = Some p)
                \<and> (\<forall>t. wellFormed t \<longrightarrow> utf8_decode rt (utf8_encode t) = t)
                \<and> wellFormed s
                \<longrightarrow> decryptMessage rt cfg (hexEncode iv @ colon # hexEncode c) = Inr s)"
proof -
  from assms(2) obtain c where
    enc: "aes256cbc_encrypt rt (getKey rt (ENCRYPTION_KEY cfg)) iv (utf8_encode s) = Some c"
    by blast
  have e1: "encryptMessageWithIV rt cfg s iv = Inr (hexEncode iv @ colon # hexEncode c)"
    using enc by (simp add: encryptMessageWithIV_def)
  have e2: "encryptMessage rt cfg iv s = Inr (hexEncode iv @ colon # hexEncode c)"
    using e1 by (simp add: encryptMessage_def)
  have l: "length (hexEncode iv) = 32"
    using assms(1) by (simp add: length_hexEncode)
  have env: "encryptMessageWithIV rt (cfg\<lparr>env_ENCRYPTION_KEY := env'\<rparr>) s iv
               = encryptMessageWithIV rt cfg s iv"
    by (simp add: encryptMessageWithIV_def)
  have d: "decryptMessage rt cfg (hexEncode iv @ colon # hexEncode c) = Inr s"
    if inv: "\<forall>p c'. aes256cbc_encrypt rt (getKey rt (ENCRYPTION_KEY cfg)) iv p = Some c'
                 \<longrightarrow> aes256cbc_decrypt rt (getKey rt (ENCRYPTION_KEY cfg)) iv c' = Some p"
      and utf: "\<forall>t. wellFormed t \<longrightarrow> utf8_decode rt (utf8_encode t) = t"
      and wf: "wellFormed s"
  proof -
    have dec: "aes256cbc_decrypt rt (getKey rt (ENCRYPTION_KEY cfg)) iv c = Some (utf8_encode s)"
      using inv enc by blast
    have "utf8_decode rt (utf8_encode s) = s"
      using utf wf by blast
    with dec assms(1) show ?thesis
      by (simp add: decryptMessage_well_formed)
  qed
  show ?thesis
    using enc e1 e2 d l env colon_notin_hexEncode by blast
qed

text \<open>
  The witness takes the string of the five code units \<open>D83D DE00 20AC 00E9 0041\<close>: a
  surrogate pair, two other characters outside ASCII and a letter.
\<close>

theorem encrypt_decrypt_round_trip_witness:
  "length exampleIV = 16
   \<and> (\<forall>p. \<exists>c. aes256cbc_encrypt exampleRuntime (getKey exampleRuntime (ENCRYPTION_KEY oldConfig))
                   exampleIV p = Some c)
   \<and> wellFormed [0xD83D, 0xDE00, 0x20AC, 0xE9, 0x41]
   \<and> utf8_decode exampleRuntime (utf8_encode [0xD83D, 0xDE00, 0x20AC, 0xE9, 0x41])
       = [0xD83D, 0xDE00, 0x20AC, 0xE9, 0x41]
   \<and> (\<exists>c. aes256cbc_encrypt exampleRuntime (getKey exampleRuntime (ENCRYPTION_KEY oldConfig))
               exampleIV (utf8_encode [0xD83D, 0xDE00, 0x20AC, 0xE9, 0x41]) = Some c
          \<and> encryptMessageWithIV exampleRuntime oldConfig [0xD83D, 0xDE00, 0x20AC, 0xE9, 0x41]
               exampleIV
             = Inr (hexEncode exampleIV @ colon # hexEncode c)
          \<and> encryptMessage exampleRuntime oldConfig exampleIV [0xD83D, 0xDE00, 0x20AC, 0xE9, 0x41]
             = Inr (hexEncode exampleIV @ colon # hexEncode c)
          \<and> decryptMessage exampleRuntime oldConfig (hexEncode exampleIV @ colon # hexEncode c)
             = Inr [0xD83D, 0xDE00, 0x20AC, 0xE9, 0x41])"
proof -
  let ?s = "[0xD83D, 0xDE00, 0x20AC, 0xE9, 0x41] :: jsstring"
  let ?k = "getKey exampleRuntime (ENCRYPTION_KEY oldConfig)"
  have wf: "wellFormed ?s"
    by (simp add: isHighSurrogate_def isLowSurrogate_def)
  have utf: "utf8_decode exampleRuntime (utf8_encode ?s) = ?s"
    using exampleRuntime_decoder wf by blast
  have total: "\<forall>p. \<exists>c. aes256cbc_encrypt exampleRuntime ?k exampleIV p = Some c"
    using exampleRuntime_inverse [OF length_exampleIV, of "ENCRYPTION_KEY oldConfig"] by blast
  have inv: "\<forall>p c'. aes256cbc_encrypt exampleRuntime ?k exampleIV p = Some c'
               \<longrightarrow> aes256cbc_decrypt exampleRuntime ?k exampleIV c' = Some p"
    using exampleRuntime_inverse [OF length_exampleIV, of "ENCRYPTION_KEY oldConfig"]
    by (metis option.inject)
  show ?thesis
    using length_exampleIV total wf utf inv exampleRuntime_decoder
      encrypt_decrypt_round_trip [where rt = exampleRuntime and cfg = oldConfig
        and iv = exampleIV and s = ?s and env' = None, OF length_exampleIV total]
    by blast
qed

text \<open>
  C6 as stated fails for a string with an unpaired surrogate: \<open>"\\uD800"\<close> is written to
  the cipher as the bytes \<open>EF BF BD\<close>, the encoding of U+FFFD, and decrypts to
  \<open>"\\uFFFD"\<close>. Whatever the cipher and the decoder, the two strings have the same
  ciphertext (\<open>lone_surrogate_same_ciphertext\<close>), so not both can be recovered.
\<close>

theorem lone_surrogate_round_trip_counterexample:
  "encryptMessage exampleRuntime oldConfig exampleIV [0xD800]
     = Inr (js ''000102030405060708090a0b0c0d0e0f:1ceceab5'')
   \<and> decryptMessage exampleRuntime oldConfig (js ''000102030405060708090a0b0c0d0e0f:1ceceab5'')
     = Inr [0xFFFD]
   \<and> decryptMessage exampleRuntime oldConfig (js ''000102030405060708090a0b0c0d0e0f:1ceceab5'')
     \<noteq> Inr [0xD800]"
proof -
  let ?key = "[111, 108, 100, 45, 107, 101, 121] @ replicate 25 (0 :: 8 word)"
  have ct: "js ''000102030405060708090a0b0c0d0e0f:1ceceab5''
              = hexEncode exampleIV @ colon # hexEncode [0x1C, 0xEC, 0xEA, 0xB5]"
    by (simp add: js_def hexEncode_def exampleIV_def hexDigit_def colon_def)
  have enc: "aes256cbc_encrypt exampleRuntime ?key exampleIV (utf8_encode [0xD800])
               = Some [0x1C, 0xEC, 0xEA, 0xB5]"
    by (simp add: exampleRuntime_def exampleEncrypt_def exampleIV_def sum_list_replicate
          encodeUnit_def isHighSurrogate_def isLowSurrogate_def encodeCodePoint_def)
  have dec: "aes256cbc_decrypt exampleRuntime ?key exampleIV [0x1C, 0xEC, 0xEA, 0xB5]
               = Some [0xEF, 0xBF, 0xBD]"
    by (simp add: exampleRuntime_def exampleDecrypt_def exampleIV_def sum_list_replicate)
  have utf: "utf8_decode exampleRuntime [0xEF, 0xBF, 0xBD] = [0xFFFD]"
    by (simp add: exampleRuntime_def isContinuation_def)
  have k: "getKey exampleRuntime (ENCRYPTION_KEY oldConfig) = ?key"
    using oldKey_bytes by (simp add: oldConfig_def)
  have e: "encryptMessage exampleRuntime oldConfig exampleIV [0xD800]
             = Inr (js ''000102030405060708090a0b0c0d0e0f:1ceceab5'')"
    unfolding ct encryptMessage_def encryptMessageWithIV_def Let_def k enc by simp
  have d: "decryptMessage exampleRuntime oldConfig (js ''000102030405060708090a0b0c0d0e0f:1ceceab5'')
             = Inr [0xFFFD]"
    unfolding ct decryptMessage_well_formed [OF length_exampleIV] k dec by (simp add: utf)
  show ?thesis
    using e d by simp
qed

section \<open>Properties of the lookup by e-mail\<close>



lemma decrypt_without_fallback:
  assumes "length iv = 16" and "env_ENCRYPTION_KEY cfg = None"
    and "aes256cbc_decrypt rt (getKey rt (ENCRYPTION_KEY cfg)) iv c = None"
  shows "decryptMessage rt cfg (hexEncode iv @ colon # hexEncode c) = Inl DecryptFailed"
  unfolding decryptMessage_well_formed [OF assms(1)] using assms(2,3) by simp

lemma decryptMessage_no_colon:
  "t \<noteq> [] \<Longrightarrow> colon \<notin> set t \<Longrightarrow> decryptMessage rt cfg t = Inl DecryptFailed"
  by (simp add: decryptMessage_def split_on_notin)

text \<open>The example record under the example runtime.\<close>

lemma rotatedEmail_form:
  "js ''000102030405060708090a0b0c0d0e0f:8e6d8f5b90b5''
     = hexEncode exampleIV @ colon # hexEncode [0x8E, 0x6D, 0x8F, 0x5B, 0x90, 0xB5]"
  by (simp add: js_def hexEncode_def exampleIV_def hexDigit_def colon_def)

lemma rotatedName_form:
  "js ''000102030405060708090a0b0c0d0e0f:8f9c8fb5''
     = hexEncode exampleIV @ colon # hexEncode [0x8F, 0x9C, 0x8F, 0xB5]"
  by (simp add: js_def hexEncode_def exampleIV_def hexDigit_def colon_def)




lemma example_dec_new:
  "aes256cbc_decrypt exampleRuntime (getKey exampleRuntime (js ''new-key'')) exampleIV
     [0x8E, 0x6D, 0x8F, 0x5B, 0x90, 0xB5] = None"
  unfolding newKey_bytes
  by (simp add: exampleRuntime_def exampleDecrypt_def exampleIV_def sum_list_replicate)

lemma example_dec_new_name:
  "aes256cbc_decrypt exampleRuntime (getKey exampleRuntime (js ''new-key'')) exampleIV
     [0x8F, 0x9C, 0x8F, 0xB5] = None"
  unfolding newKey_bytes
  by (simp add: exampleRuntime_def exampleDecrypt_def exampleIV_def sum_list_replicate)




lemma rotatedUser_email:
  "email rotatedUser = hexEncode exampleIV @ colon # hexEncode [0x8E, 0x6D, 0x8F, 0x5B, 0x90, 0xB5]"
  using rotatedEmail_form by (simp add: rotatedUser_def)












section \<open>Properties of the identity codec\<close>

lemma decryptEmailField_total:
  "\<exists>d. decryptEmailField rt cfg user = Inr d \<and> d \<noteq> []
      \<and> (email user \<noteq> [] \<and> (\<exists>e. decryptMessage rt cfg (email user) = Inl e) \<longrightarrow> d = email user)"
  by (cases "decryptMessage rt cfg (email user)")
     (auto simp: decryptEmailField_def try_catch_def and_then_def js_def)

lemma decryptUsernameField_total:
  "\<exists>d. decryptUsernameField rt cfg user = Inr d
      \<and> (\<forall>name. username user = Some name \<and> colon \<in> set name
             \<and> (\<exists>e. decryptMessage rt cfg name = Inl e) \<longrightarrow> orUndefined d = None)"
proof (cases "orUndefined (username user)")
  case None
  then show ?thesis
    by (auto simp: decryptUsernameField_def orUndefined_def split: option.splits if_splits)
next
  case (Some name)
  then have name: "username user = Some name"
    by (auto simp: orUndefined_def split: option.splits if_splits)
  show ?thesis
    by (cases "decryptMessage rt cfg name")
       (auto simp: decryptUsernameField_def Some name try_catch_def and_then_def orUndefined_def)
qed

lemma decryptOptionalField_total:
  "\<exists>d. decryptOptionalField rt cfg field = Inr d
      \<and> (\<forall>s. field = Some s \<and> s \<noteq> [] \<and> (\<exists>e. decryptMessage rt cfg s = Inl e)
             \<longrightarrow> orUndefined d = Some s)"
proof (cases "orUndefined field")
  case None
  then show ?thesis
    by (auto simp: decryptOptionalField_def orUndefined_def split: option.splits if_splits)
next
  case (Some stored)
  then have stored: "field = Some stored" "stored \<noteq> []"
    by (auto simp: orUndefined_def split: option.splits if_splits)
  show ?thesis
    by (cases "decryptMessage rt cfg stored")
       (auto simp: decryptOptionalField_def Some stored try_catch_def and_then_def orUndefined_def)
qed

lemma decryptIsAdminField_total: "\<exists>d. decryptIsAdminField rt cfg user = Inr d"
proof (cases "orUndefined (isAdmin user)")
  case None
  then show ?thesis by (simp add: decryptIsAdminField_def)
next
  case (Some stored)
  show ?thesis
    by (cases "decryptMessage rt cfg stored")
       (simp_all add: decryptIsAdminField_def Some try_catch_def and_then_def)
qed

text \<open>
  C4, as amended. \<open>decryptUserData\<close> returns a view for every user record and every
  outcome of the decryptions; the view carries no \<open>passwordHash\<close> and a non-empty
  \<open>email\<close>. When decrypting a stored e-mail fails, the view's \<open>email\<close> is the stored
  string. When decrypting a user name in \<open>iv:data\<close> form fails, the view has no
  \<open>username\<close>. When decrypting \<open>bio\<close>, \<open>interests\<close> or \<open>location\<close> fails, the view
  carries the stored string of that field unchanged.
\<close>

theorem decryptUserData_never_throws:
  "\<exists>view. decryptUserData rt cfg user = Inr view
      \<and> view_passwordHash view = None
      \<and> view_email view \<noteq> []
      \<and> (email user \<noteq> [] \<and> (\<exists>e. decryptMessage rt cfg (email user) = Inl e)
            \<longrightarrow> view_email view = email user)
      \<and> (\<forall>name. username user = Some name \<and> colon \<in> set name
             \<and> (\<exists>e. decryptMessage rt cfg name = Inl e) \<longrightarrow> view_username view = None)
      \<and> (\<forall>s. bio user = Some s \<and> s \<noteq> [] \<and> (\<exists>e. decryptMessage rt cfg s = Inl e)
             \<longrightarrow> view_bio view = Some s)
      \<and> (\<forall>s. interests user = Some s \<and> s \<noteq> [] \<and> (\<exists>e. decryptMessage rt cfg s = Inl e)
             \<longrightarrow> view_interests view = Some s)
      \<and> (\<forall>s. location user = Some s \<and> s \<noteq> [] \<and> (\<exists>e. decryptMessage rt cfg s = Inl e)
             \<longrightarrow> view_location view = Some s)"
proof -
  from decryptEmailField_total [of rt cfg user] obtain de where
    de: "decryptEmailField rt cfg user = Inr de" "de \<noteq> []"
      "email user \<noteq> [] \<and> (\<exists>e. decryptMessage rt cfg (email user) = Inl e) \<longrightarrow> de = email user"
    by blast
  from decryptUsernameField_total [of rt cfg user] obtain du where
    du: "decryptUsernameField rt cfg user = Inr du"
      "\<forall>name. username user = Some name \<and> colon \<in> set name
         \<and> (\<exists>e. decryptMessage rt cfg name = Inl e) \<longrightarrow> orUndefined du = None"
    by blast
  from decryptOptionalField_total [of rt cfg "bio user"] obtain db where
    db: "decryptOptionalField rt cfg (bio user) = Inr db"
      "\<forall>s. bio user = Some s \<and> s \<noteq> [] \<and> (\<exists>e. decryptMessage rt cfg s = Inl e)
         \<longrightarrow> orUndefined db = Some s"
    by blast
  from decryptOptionalField_total [of rt cfg "interests user"] obtain di where
    di: "decryptOptionalField rt cfg (interests user) = Inr di"
      "\<forall>s. interests user = Some s \<and> s \<noteq> [] \<and> (\<exists>e. decryptMessage rt cfg s = Inl e)
         \<longrightarrow> orUndefined di = Some s"
    by blast
  from decryptOptionalField_total [of rt cfg "location user"] obtain dl where
    dl: "decryptOptionalField rt cfg (location user) = Inr dl"
      "\<forall>s. location user = Some s \<and> s \<noteq> [] \<and> (\<exists>e. decryptMessage rt cfg s = Inl e)
         \<longrightarrow> orUndefined dl = Some s"
    by blast
  from decryptIsAdminField_total [of rt cfg user] obtain da where
    da: "decryptIsAdminField rt cfg user = Inr da"
    by blast
  show ?thesis
    using de(2,3) du(2) db(2) di(2) dl(2)
    by (simp add: decryptUserData_def and_then_def de(1) du(1) db(1) di(1) dl(1) da)
qed

text \<open>The example record read by a process that knows only \<open>new-key\<close>.\<close>

lemma newConfig_keys:
  "env_ENCRYPTION_KEY newConfig = None" "ENCRYPTION_KEY newConfig = js ''new-key''"
  by (simp_all add: newConfig_def)

lemma stranded_email: "decryptMessage exampleRuntime newConfig (email rotatedUser) = Inl DecryptFailed"
  unfolding rotatedUser_email
  by (rule decrypt_without_fallback [OF length_exampleIV newConfig_keys(1)])
     (simp only: newConfig_keys(2) example_dec_new)

lemma stranded_name:
  "decryptMessage exampleRuntime newConfig (js ''000102030405060708090a0b0c0d0e0f:8f9c8fb5'')
     = Inl DecryptFailed"
  unfolding rotatedName_form
  by (rule decrypt_without_fallback [OF length_exampleIV newConfig_keys(1)])
     (simp only: newConfig_keys(2) example_dec_new_name)

lemma legacy_text:
  "decryptMessage exampleRuntime newConfig (js ''hello'') = Inl DecryptFailed"
  "decryptMessage exampleRuntime newConfig (js ''chess'') = Inl DecryptFailed"
  by (rule decryptMessage_no_colon; simp add: js_def colon_def)+

lemma rotatedUser_fields:
  "email rotatedUser \<noteq> []"
  "username rotatedUser = Some (js ''000102030405060708090a0b0c0d0e0f:8f9c8fb5'')"
  "colon \<in> set (js ''000102030405060708090a0b0c0d0e0f:8f9c8fb5'')"
  "bio rotatedUser = Some (js ''hello'')" "js ''hello'' \<noteq> []"
  "interests rotatedUser = Some (js ''chess'')" "js ''chess'' \<noteq> []"
  "location rotatedUser = Some (js ''000102030405060708090a0b0c0d0e0f:8f9c8fb5'')"
  "js ''000102030405060708090a0b0c0d0e0f:8f9c8fb5'' \<noteq> []"
  by (simp_all add: rotatedUser_def js_def colon_def)

theorem decryptUserData_never_throws_witness:
  "email rotatedUser \<noteq> []
   \<and> decryptMessage exampleRuntime newConfig (email rotatedUser) = Inl DecryptFailed
   \<and> username rotatedUser = Some (js ''000102030405060708090a0b0c0d0e0f:8f9c8fb5'')
   \<and> colon \<in> set (js ''000102030405060708090a0b0c0d0e0f:8f9c8fb5'')
   \<and> decryptMessage exampleRuntime newConfig (js ''000102030405060708090a0b0c0d0e0f:8f9c8fb5'')
       = Inl DecryptFailed
   \<and> bio rotatedUser = Some (js ''hello'')
   \<and> decryptMessage exampleRuntime newConfig (js ''hello'') = Inl DecryptFailed
   \<and> interests rotatedUser = Some (js ''chess'')
   \<and> decryptMessage exampleRuntime newConfig (js ''chess'') = Inl DecryptFailed
   \<and> location rotatedUser = Some (js ''000102030405060708090a0b0c0d0e0f:8f9c8fb5'')
   \<and> (\<exists>view. decryptUserData exampleRuntime newConfig rotatedUser = Inr view
          \<and> view_passwordHash view = None
          \<and> view_email view = email rotatedUser
          \<and> view_username view = None
          \<and> view_bio view = Some (js ''hello'')
          \<and> view_interests view = Some (js ''chess'')
          \<and> view_location view = Some (js ''000102030405060708090a0b0c0d0e0f:8f9c8fb5''))"
  using decryptUserData_never_throws [of exampleRuntime newConfig rotatedUser]
    stranded_email stranded_name legacy_text rotatedUser_fields
  by auto

lemma rotatedUser_view:
  "map_sum id (\<lambda>v. (view_bio v, view_interests v, view_location v))
     (decryptUserData exampleRuntime newConfig rotatedUser)
   = Inr (Some (js ''hello''), Some (js ''chess''),
          Some (js ''000102030405060708090a0b0c0d0e0f:8f9c8fb5''))"
proof -
  obtain de where de: "decryptEmailField exampleRuntime newConfig rotatedUser = Inr de"
    using decryptEmailField_total by blast
  obtain du where du: "decryptUsernameField exampleRuntime newConfig rotatedUser = Inr du"
    using decryptUsernameField_total by blast
  obtain da where da: "decryptIsAdminField exampleRuntime newConfig rotatedUser = Inr da"
    using decryptIsAdminField_total by blast
  have b: "decryptOptionalField exampleRuntime newConfig (bio rotatedUser) = Inr (Some (js ''hello''))"
    by (simp add: decryptOptionalField_def rotatedUser_fields orUndefined_def legacy_text
          try_catch_def and_then_def)
  have i: "decryptOptionalField exampleRuntime newConfig (interests rotatedUser)
             = Inr (Some (js ''chess''))"
    by (simp add: decryptOptionalField_def rotatedUser_fields orUndefined_def legacy_text
          try_catch_def and_then_def)
  have l: "decryptOptionalField exampleRuntime newConfig (location rotatedUser)
             = Inr (Some (js ''000102030405060708090a0b0c0d0e0f:8f9c8fb5''))"
    by (simp add: decryptOptionalField_def rotatedUser_fields orUndefined_def stranded_name
          try_catch_def and_then_def)
  show ?thesis
    unfolding decryptUserData_def and_then_def de du da b i l
    by (simp add: orUndefined_def rotatedUser_fields)
qed

text \<open>
  C4 as stated fails for \<open>bio\<close>, \<open>interests\<close> and \<open>location\<close>: the legacy plain text
  \<open>hello\<close> and \<open>chess\<close>, and a location encrypted under a key the process no longer
  has, all fail to decrypt and are returned as stored, not as absent.
\<close>

theorem undecryptable_bio_returned_counterexample:
  "decryptMessage exampleRuntime newConfig (js ''hello'') = Inl DecryptFailed
   \<and> decryptMessage exampleRuntime newConfig (js ''chess'') = Inl DecryptFailed
   \<and> decryptMessage exampleRuntime newConfig (js ''000102030405060708090a0b0c0d0e0f:8f9c8fb5'')
       = Inl DecryptFailed
   \<and> map_sum id (\<lambda>v. (view_bio v, view_interests v, view_location v))
        (decryptUserData exampleRuntime newConfig rotatedUser)
       = Inr (Some (js ''hello''), Some (js ''chess''),
              Some (js ''000102030405060708090a0b0c0d0e0f:8f9c8fb5''))
   \<and> map_sum id (\<lambda>v. (view_bio v, view_interests v, view_location v))
        (decryptUserData exampleRuntime newConfig rotatedUser)
       \<noteq> Inr (None, None, None)"
  using legacy_text stranded_name rotatedUser_view by simp


end
